theory Spec2Isabelle
  imports Complex_Main "HOL-Library.AList"
begin

section \<open>Rearrange episode generator: data model\<close>

text \<open>
  A shallow embedding of \<^verbatim>\<open>habitat/datasets/rearrange/rearrange_generator.py\<close>.
  The simulator, the debug visualizer and the sampler classes are collaborators of the
  generator: their operations are the fields of the record \<open>externals\<close>, over an
  abstract world state \<open>'w\<close> that holds everything they own (the physics world, the
  random generator, the samplers' bookkeeping). A float that the simulator computes (a
  coordinate, a displacement) is a \<open>pyfloat\<close>, which may be infinite or not a number;
  the numbers of the configuration and the simulated time are read as reals.
  A Python \<^verbatim>\<open>dict\<close> is an association list in insertion order: \<open>map_of\<close> reads
  a key, \<open>AList.update\<close> stores one (in place when the key is present, at the end
  otherwise). Every \<^verbatim>\<open>raise\<close> and failed \<^verbatim>\<open>assert\<close> is an \<open>Inl\<close> result;
  a loop that may run forever returns \<open>None\<close>.
\<close>

datatype error =
    AssertionError string
  | NotImplementedError
  | KeyError string
  | IndexError
  | ZeroDivisionError

type_synonym ('k, 'v) dict = "('k \<times> 'v) list"

text \<open>
  A Python float by its value: a real number, an infinity or NaN. \<^verbatim>\<open>a > b\<close> on
  floats compares the values, and is false as soon as one side is NaN; so is
  \<^verbatim>\<open>a <= b\<close>. The builtin \<^verbatim>\<open>max(a, b)\<close> keeps \<open>a\<close> unless \<^verbatim>\<open>b > a\<close>.
\<close>

datatype pyfloat = Finite real | PosInf | NegInf | NaN

fun float_gt :: "pyfloat \<Rightarrow> pyfloat \<Rightarrow> bool" where
  "float_gt NaN b = False"
| "float_gt a NaN = False"
| "float_gt (Finite a) (Finite b) = (a > b)"
| "float_gt PosInf b = (b \<noteq> PosInf)"
| "float_gt a PosInf = False"
| "float_gt a NegInf = (a \<noteq> NegInf)"
| "float_gt NegInf b = False"


definition py_max :: "pyfloat \<Rightarrow> pyfloat \<Rightarrow> pyfloat" where
  "py_max a b = (if float_gt b a then b else a)"

text \<open>A vector of the simulator's vector library: three float coordinates.\<close>

type_synonym vec3 = "pyfloat \<times> pyfloat \<times> pyfloat"

type_synonym matrix = "real list list"

text \<open>The apostrophe of the f-strings.\<close>

definition apos :: string where
  "apos = [CHR 0x27]"

subsection \<open>Configuration\<close>

text \<open>
  An element of the scene sampler's parameter tuple: a scene name
  (\<^verbatim>\<open>("single", ("v3_sc0_staging_00",))\<close>) or a list of scene-set names
  (\<^verbatim>\<open>("subset", (["v3_sc"], []))\<close>).
\<close>

datatype scene_param = PStr string | PList "string list"

text \<open>
  Parameters of an object sampler and of a target sampler:
  \<^verbatim>\<open>([object sets], [receptacle sets], min samples, max samples, orientation_sampling)\<close>.
\<close>

type_synonym uniform_params = "string list \<times> string list \<times> int \<times> int \<times> string"

text \<open>
  Parameters of an articulated-object state sampler:
  \<^verbatim>\<open>("ao_handle", "link name", min, max)\<close> for the type "uniform",
  \<^verbatim>\<open>([("ao handle", [("link name", min, max)])],)\<close> for the type "composite".
\<close>

datatype ao_params =
    AOUniformParams string string real real
  | AOCompositeParams "(string \<times> (string \<times> real \<times> real) list) list"

type_synonym marker = "string \<times> string \<times> string list \<times> (real \<times> real \<times> real)"

record config =
  cfg_dataset_path :: string
  cfg_additional_object_paths :: "string list"
  cfg_scene_sets :: "(string \<times> string list) list"
  cfg_object_sets :: "(string \<times> string list) list"
  cfg_receptacle_sets :: "(string \<times> string list) list"
  cfg_scene_sampler :: "string \<times> scene_param list"
  cfg_obj_samplers :: "(string \<times> string \<times> uniform_params) list"
  cfg_obj_target_samplers :: "(string \<times> string \<times> uniform_params) list"
  cfg_ao_state_samplers :: "(string \<times> string \<times> ao_params) list"
  cfg_markers :: "marker list"

subsection \<open>Sampler objects and simulator objects\<close>

text \<open>
  A managed rigid object is addressed in the simulator by its instance handle; its
  translation and transformation are read from the world.
\<close>

record rigid_object =
  handle :: string
  creation_attributes_handle :: string

datatype scene_sampler =
    SingleSceneSampler scene_param
  | SceneSubsetSampler "string set" "string set"

datatype obj_sampler =
  ObjectSampler "string list" "string list" "int \<times> int" string

datatype target_sampler =
  ObjectTargetSampler "rigid_object list" "string list" "int \<times> int" string

datatype ao_state_sampler =
    ArticulatedObjectStateSampler string string "real \<times> real"
  | CompositeArticulatedObjectStateSampler
      "(string, (string, real \<times> real) dict) dict"

text \<open>
  The joint states of an episode: articulated-object instance (its handle) to link index
  to joint value.
\<close>

type_synonym ao_states_t = "(string, (int, real) dict) dict"

datatype debug_op =
    VisualizeSceneReceptacles
  | LookAt vec3
  | GetObservation
  | GetObservationFrom vec3
  | MakeDebugVideo string
  | TargetWireBox string matrix

record 'w externals =
  sim_create :: "string \<Rightarrow> string \<Rightarrow> string list \<Rightarrow> 'w"
  sim_reconfigure :: "string \<Rightarrow> string \<Rightarrow> 'w \<Rightarrow> 'w"
  sim_scene_id :: "'w \<Rightarrow> string"
  sim_set_scene_id :: "string \<Rightarrow> 'w \<Rightarrow> 'w"
  sim_setup_camera :: "'w \<Rightarrow> 'w"
  get_world_time :: "'w \<Rightarrow> real"
  step_world :: "real \<Rightarrow> 'w \<Rightarrow> 'w"
  translation :: "'w \<Rightarrow> string \<Rightarrow> vec3"
  transformation :: "'w \<Rightarrow> string \<Rightarrow> matrix"
  vec_add :: "vec3 \<Rightarrow> vec3 \<Rightarrow> vec3"
  vec_sub :: "vec3 \<Rightarrow> vec3 \<Rightarrow> vec3"
  vec_div :: "vec3 \<Rightarrow> real \<Rightarrow> vec3"
  vec_length :: "vec3 \<Rightarrow> pyfloat"
  remove_object_by_handle :: "string \<Rightarrow> 'w \<Rightarrow> 'w"
  vdb :: "debug_op \<Rightarrow> 'w \<Rightarrow> 'w"
  scene_sampler_reset :: "scene_sampler \<Rightarrow> 'w \<Rightarrow> 'w"
  scene_sampler_sample :: "scene_sampler \<Rightarrow> 'w \<Rightarrow> string \<times> 'w"
  obj_sampler_reset :: "string \<Rightarrow> obj_sampler \<Rightarrow> 'w \<Rightarrow> 'w"
  obj_sampler_sample ::
    "string \<Rightarrow> obj_sampler \<Rightarrow> bool \<Rightarrow> bool \<Rightarrow> 'w \<Rightarrow> rigid_object list \<times> 'w"
  ao_sampler_sample ::
    "string \<Rightarrow> ao_state_sampler \<Rightarrow> 'w \<Rightarrow> (string, (int, real) dict) dict option \<times> 'w"
  target_sampler_sample ::
    "string \<Rightarrow> target_sampler \<Rightarrow> bool \<Rightarrow> 'w \<Rightarrow> (string, rigid_object) dict \<times> 'w"

record episode =
  episode_id :: string
  start_position :: "real list"
  start_rotation :: "int list"
  scene_id :: string
  ao_states :: ao_states_t
  rigid_objs :: "(string \<times> matrix) list"
  targets :: "(string, matrix) dict"
  markers :: "marker list"

record 'w generator =
  self_cfg :: config
  self_render_debug_obs :: bool
  self_make_debug_video :: bool
  self_sim :: 'w
  self_scene_sets :: "(string, string list) dict"
  self_obj_sets :: "(string, string list) dict"
  self_receptacle_sets :: "(string, string list) dict"
  self_scene_sampler :: scene_sampler
  self_obj_samplers :: "(string, obj_sampler) dict"
  self_ao_state_samplers :: "(string, ao_state_sampler) dict"
  self_target_samplers :: "(string, target_sampler) dict"
  self_ep_sampled_objects :: "rigid_object list"
  self_num_ep_generated :: int
  self_sampled_objects :: "(string, rigid_object list) dict"
  self_sampled_targets :: "(string, matrix) dict"

section \<open>Construction of the generator\<close>

subsection \<open>Resource sets\<close>

text \<open>
  \<^verbatim>\<open>_get_resource_sets\<close>: each of its three loops stores the members of a named set
  under the set's name; a later entry of the same name replaces the earlier one.
\<close>

fun get_resource_sets ::
  "(string \<times> string list) list \<Rightarrow> (string, string list) dict \<Rightarrow> (string, string list) dict"
where
  "get_resource_sets [] sets = sets"
| "get_resource_sets ((set_name, members) # rest) sets =
     get_resource_sets rest (AList.update set_name members sets)"

text \<open>
  The comprehension \<^verbatim>\<open>[x for y in names for x in sets[y]]\<close>: the subscript raises
  \<^verbatim>\<open>KeyError\<close> at the first name that is not a key.
\<close>

fun flatten_sets :: "(string, 'a list) dict \<Rightarrow> string list \<Rightarrow> error + 'a list" where
  "flatten_sets sets [] = Inr []"
| "flatten_sets sets (y # ys) =
     (case map_of sets y of
        None \<Rightarrow> Inl (KeyError y)
      | Some xs \<Rightarrow>
          (case flatten_sets sets ys of
             Inl e \<Rightarrow> Inl e
           | Inr others \<Rightarrow> Inr (xs @ others)))"

subsection \<open>Object samplers and target samplers\<close>

fun get_obj_samplers ::
  "(string, string list) dict \<Rightarrow> (string, string list) dict \<Rightarrow>
   (string \<times> string \<times> uniform_params) list \<Rightarrow> (string, obj_sampler) dict \<Rightarrow>
   error + (string, obj_sampler) dict"
where
  "get_obj_samplers obj_sets receptacle_sets [] obj_samplers = Inr obj_samplers"
| "get_obj_samplers obj_sets receptacle_sets
     ((obj_sampler_name, obj_sampler_type, p0, p1, p2, p3, p4) # rest) obj_samplers =
     (if obj_sampler_name \<in> set (map fst obj_samplers) then
        Inl (AssertionError
          (''Duplicate object sampler name '' @ apos @ obj_sampler_name @ apos @ '' in config.''))
      else if obj_sampler_type = ''uniform'' then
        (case flatten_sets obj_sets p0 of
           Inl e \<Rightarrow> Inl e
         | Inr objects \<Rightarrow>
             (case flatten_sets receptacle_sets p1 of
                Inl e \<Rightarrow> Inl e
              | Inr receptacles \<Rightarrow>
                  get_obj_samplers obj_sets receptacle_sets rest
                    (AList.update obj_sampler_name
                       (ObjectSampler objects receptacles (p2, p3) p4) obj_samplers)))
      else Inl NotImplementedError)"

text \<open>
  \<^verbatim>\<open>_get_object_target_samplers\<close> reads the object instances of the current episode
  (\<^verbatim>\<open>self.episode_data["sampled_objects"]\<close>, keyed by object sampler name).
\<close>

fun get_object_target_samplers ::
  "(string, rigid_object list) dict \<Rightarrow> (string, string list) dict \<Rightarrow>
   (string \<times> string \<times> uniform_params) list \<Rightarrow> (string, target_sampler) dict \<Rightarrow>
   error + (string, target_sampler) dict"
where
  "get_object_target_samplers sampled_objects receptacle_sets [] target_samplers =
     Inr target_samplers"
| "get_object_target_samplers sampled_objects receptacle_sets
     ((target_sampler_name, target_sampler_type, p0, p1, p2, p3, p4) # rest) target_samplers =
     (if target_sampler_name \<in> set (map fst target_samplers) then
        Inl (AssertionError
          (''Duplicate target sampler name '' @ apos @ target_sampler_name @ apos @ '' in config.''))
      else if target_sampler_type = ''uniform'' then
        (case flatten_sets sampled_objects p0 of
           Inl e \<Rightarrow> Inl e
         | Inr object_instances \<Rightarrow>
             (case flatten_sets receptacle_sets p1 of
                Inl e \<Rightarrow> Inl e
              | Inr receptacles \<Rightarrow>
                  get_object_target_samplers sampled_objects receptacle_sets rest
                    (AList.update target_sampler_name
                       (ObjectTargetSampler object_instances receptacles (p2, p3) p4)
                       target_samplers)))
      else Inl NotImplementedError)"

subsection \<open>Scene sampler\<close>

text \<open>Subscripting the parameter tuple; iterating one of its elements (a string yields its characters).\<close>

fun tuple_get :: "'a list \<Rightarrow> nat \<Rightarrow> error + 'a" where
  "tuple_get [] i = Inl IndexError"
| "tuple_get (x # xs) 0 = Inr x"
| "tuple_get (x # xs) (Suc i) = tuple_get xs i"

fun param_items :: "scene_param \<Rightarrow> string list" where
  "param_items (PList names) = names"
| "param_items (PStr s) = map (\<lambda>c. [c]) s"

fun collect_scene_subsets ::
  "(string, string list) dict \<Rightarrow> string list \<Rightarrow> string set \<Rightarrow> error + string set"
where
  "collect_scene_subsets scene_sets [] subsets = Inr subsets"
| "collect_scene_subsets scene_sets (scene_set # rest) subsets =
     (case map_of scene_sets scene_set of
        None \<Rightarrow>
          Inl (AssertionError
            (''SubsetSceneSampler requested scene_set '' @ scene_set @ '' not found.''))
      | Some scene_subsets \<Rightarrow>
          collect_scene_subsets scene_sets rest (fold insert scene_subsets subsets))"

definition get_scene_sampler ::
  "(string, string list) dict \<Rightarrow> string \<times> scene_param list \<Rightarrow> error + scene_sampler"
where
  "get_scene_sampler scene_sets scene_sampler_cfg =
     (case scene_sampler_cfg of (sampler_type, params) \<Rightarrow>
        if sampler_type = ''single'' then
          (case tuple_get params 0 of
             Inl e \<Rightarrow> Inl e
           | Inr scene \<Rightarrow> Inr (SingleSceneSampler scene))
        else if sampler_type = ''subset'' then
          (case tuple_get params 0 of
             Inl e \<Rightarrow> Inl e
           | Inr included_sets \<Rightarrow>
               (case collect_scene_subsets scene_sets (param_items included_sets) {} of
                  Inl e \<Rightarrow> Inl e
                | Inr included \<Rightarrow>
                    (case tuple_get params 1 of
                       Inl e \<Rightarrow> Inl e
                     | Inr excluded_sets \<Rightarrow>
                         (case collect_scene_subsets scene_sets (param_items excluded_sets) {} of
                            Inl e \<Rightarrow> Inl e
                          | Inr excluded \<Rightarrow> Inr (SceneSubsetSampler included excluded)))))
        else Inl NotImplementedError)"

subsection \<open>Articulated-object state samplers\<close>

fun composite_link_params ::
  "string \<Rightarrow> (string \<times> real \<times> real) list \<Rightarrow> (string, real \<times> real) dict \<Rightarrow>
   error + (string, real \<times> real) dict"
where
  "composite_link_params ao_handle [] links = Inr links"
| "composite_link_params ao_handle ((link_name, lo, hi) # rest) links =
     (if link_name \<in> set (map fst links) then
        Inl (AssertionError
          (''Duplicate link name '' @ apos @ link_name @ apos @ '' for handle '' @ apos
           @ ao_handle @ '' in composite AO sampler config.''))
      else composite_link_params ao_handle rest (AList.update link_name (lo, hi) links))"

fun composite_ao_sampler_params ::
  "(string \<times> (string \<times> real \<times> real) list) list \<Rightarrow>
   (string, (string, real \<times> real) dict) dict \<Rightarrow>
   error + (string, (string, real \<times> real) dict) dict"
where
  "composite_ao_sampler_params [] acc = Inr acc"
| "composite_ao_sampler_params ((ao_handle, link_sample_params) # rest) acc =
     (if ao_handle \<in> set (map fst acc) then
        Inl (AssertionError
          (''Duplicate handle '' @ apos @ ao_handle @ apos @ '' in composite AO sampler config.''))
      else
        (case composite_link_params ao_handle link_sample_params [] of
           Inl e \<Rightarrow> Inl e
         | Inr links \<Rightarrow> composite_ao_sampler_params rest (AList.update ao_handle links acc)))"

text \<open>
  A parameter tuple of the other type's shape: "uniform" subscripts a one-element tuple at
  1; "composite" iterates the handle string, and subscripts its first character at 1.
\<close>

fun get_ao_state_samplers ::
  "(string \<times> string \<times> ao_params) list \<Rightarrow> (string, ao_state_sampler) dict \<Rightarrow>
   error + (string, ao_state_sampler) dict"
where
  "get_ao_state_samplers [] ao_state_samplers = Inr ao_state_samplers"
| "get_ao_state_samplers ((ao_state_sampler_name, ao_state_sampler_type, params) # rest)
     ao_state_samplers =
     (if ao_state_sampler_name \<in> set (map fst ao_state_samplers) then
        Inl (AssertionError
          (''Duplicate AO state sampler name '' @ ao_state_sampler_name @ '' in config.''))
      else if ao_state_sampler_type = ''uniform'' then
        (case params of
           AOUniformParams ao_handle link_name lo hi \<Rightarrow>
             get_ao_state_samplers rest
               (AList.update ao_state_sampler_name
                  (ArticulatedObjectStateSampler ao_handle link_name (lo, hi)) ao_state_samplers)
         | AOCompositeParams entries \<Rightarrow> Inl IndexError)
      else if ao_state_sampler_type = ''composite'' then
        (case params of
           AOCompositeParams entries \<Rightarrow>
             (case composite_ao_sampler_params entries [] of
                Inl e \<Rightarrow> Inl e
              | Inr composite \<Rightarrow>
                  get_ao_state_samplers rest
                    (AList.update ao_state_sampler_name
                       (CompositeArticulatedObjectStateSampler composite) ao_state_samplers))
         | AOUniformParams ao_handle link_name lo hi \<Rightarrow>
             (if ao_handle = [] then
                get_ao_state_samplers rest
                  (AList.update ao_state_sampler_name
                     (CompositeArticulatedObjectStateSampler []) ao_state_samplers)
              else Inl IndexError))
      else Inl NotImplementedError)"

subsection \<open>Simulator initialisation and the constructor\<close>

text \<open>
  \<^verbatim>\<open>initialize_sim\<close>: a first call creates the simulator; a later call reconfigures it,
  and to force a reset when the scene is unchanged it first renames the loaded scene to
  "NONE", which it refuses for the empty scene.
\<close>

definition initialize_sim ::
  "'w externals \<Rightarrow> config \<Rightarrow> 'w option \<Rightarrow> string \<Rightarrow> string \<Rightarrow> error + 'w"
where
  "initialize_sim ext cfg sim scene_name dataset_path =
     (case sim of
        None \<Rightarrow>
          Inr (sim_setup_camera ext
                 (sim_create ext scene_name dataset_path (cfg_additional_object_paths cfg)))
      | Some w \<Rightarrow>
          if sim_scene_id ext w = scene_name then
            (if sim_scene_id ext w \<noteq> ''NONE'' then
               Inr (sim_setup_camera ext
                      (sim_reconfigure ext scene_name dataset_path
                         (sim_set_scene_id ext ''NONE'' w)))
             else
               Inl (AssertionError
                 ''Should never generate episodes in an empty scene. Mistake?''))
          else
            Inr (sim_setup_camera ext (sim_reconfigure ext scene_name dataset_path w)))"

text \<open>
  \<^verbatim>\<open>__init__\<close>: the simulator on the empty scene, the resource sets, the scene
  sampler, the object samplers and the articulated-object state samplers, in this order.
  It does not call \<^verbatim>\<open>_get_object_target_samplers\<close>.
\<close>

definition generator_init ::
  "'w externals \<Rightarrow> config \<Rightarrow> bool \<Rightarrow> error + 'w generator"
where
  "generator_init ext cfg debug_visualization =
     (case initialize_sim ext cfg None ''NONE'' (cfg_dataset_path cfg) of
        Inl e \<Rightarrow> Inl e
      | Inr w \<Rightarrow>
          (let scene_sets = get_resource_sets (cfg_scene_sets cfg) [];
               obj_sets = get_resource_sets (cfg_object_sets cfg) [];
               receptacle_sets = get_resource_sets (cfg_receptacle_sets cfg) []
           in
             (case get_scene_sampler scene_sets (cfg_scene_sampler cfg) of
                Inl e \<Rightarrow> Inl e
              | Inr scene_sampler \<Rightarrow>
                  (case get_obj_samplers obj_sets receptacle_sets (cfg_obj_samplers cfg) [] of
                     Inl e \<Rightarrow> Inl e
                   | Inr obj_samplers \<Rightarrow>
                       (case get_ao_state_samplers (cfg_ao_state_samplers cfg) [] of
                          Inl e \<Rightarrow> Inl e
                        | Inr ao_state_samplers \<Rightarrow>
                            Inr \<lparr> self_cfg = cfg,
                                  self_render_debug_obs = debug_visualization,
                                  self_make_debug_video = debug_visualization,
                                  self_sim = w,
                                  self_scene_sets = scene_sets,
                                  self_obj_sets = obj_sets,
                                  self_receptacle_sets = receptacle_sets,
                                  self_scene_sampler = scene_sampler,
                                  self_obj_samplers = obj_samplers,
                                  self_ao_state_samplers = ao_state_samplers,
                                  self_target_samplers = [],
                                  self_ep_sampled_objects = [],
                                  self_num_ep_generated = 0,
                                  self_sampled_objects = [],
                                  self_sampled_targets = [] \<rparr>)))))"

section \<open>Generating one episode\<close>

subsection \<open>Resetting the samplers and sampling the scene\<close>

definition reset_samplers :: "'w externals \<Rightarrow> 'w generator \<Rightarrow> 'w generator" where
  "reset_samplers ext g =
     g \<lparr> self_ep_sampled_objects := [],
         self_sim :=
           fold (\<lambda>(sampler_name, sampler) w. obj_sampler_reset ext sampler_name sampler w)
             (self_obj_samplers g)
             (scene_sampler_reset ext (self_scene_sampler g) (self_sim g)) \<rparr>"

definition generate_scene ::
  "'w externals \<Rightarrow> 'w generator \<Rightarrow> error + (string \<times> 'w generator)"
where
  "generate_scene ext g =
     (case scene_sampler_sample ext (self_scene_sampler g) (self_sim g) of
        (cur_scene_name, w1) \<Rightarrow>
          (case initialize_sim ext (self_cfg g) (Some w1) cur_scene_name
                  (cfg_dataset_path (self_cfg g)) of
             Inl e \<Rightarrow> Inl e
           | Inr w2 \<Rightarrow>
               Inr (cur_scene_name,
                    g \<lparr> self_sim :=
                          (if self_render_debug_obs g then
                             vdb ext (MakeDebugVideo ''receptacles_'')
                               (vdb ext VisualizeSceneReceptacles w2)
                           else w2) \<rparr>)))"

subsection \<open>Articulated-object states\<close>

text \<open>
  The two inner loops over one sampler's result:
  \<^verbatim>\<open>ao_states[sampled_instance][link_ix] = joint_state\<close>, after an empty mapping was
  stored for an instance that had none.
\<close>

fun merge_link_states :: "(int \<times> real) list \<Rightarrow> (int, real) dict \<Rightarrow> (int, real) dict" where
  "merge_link_states [] states = states"
| "merge_link_states ((link_ix, joint_state) # rest) states =
     merge_link_states rest (AList.update link_ix joint_state states)"

fun merge_sampler_states ::
  "(string, (int, real) dict) dict \<Rightarrow> ao_states_t \<Rightarrow> ao_states_t"
where
  "merge_sampler_states [] states = states"
| "merge_sampler_states ((sampled_instance, link_states) # rest) states =
     merge_sampler_states rest
       (AList.update sampled_instance
          (merge_link_states link_states
             (case map_of states sampled_instance of None \<Rightarrow> [] | Some present \<Rightarrow> present))
          states)"

fun sample_ao_states ::
  "'w externals \<Rightarrow> (string, ao_state_sampler) dict \<Rightarrow> ao_states_t \<Rightarrow> 'w \<Rightarrow>
   error + (ao_states_t \<times> 'w)"
where
  "sample_ao_states ext [] states w = Inr (states, w)"
| "sample_ao_states ext ((sampler_name, ao_state_sampler) # rest) states w =
     (case ao_sampler_sample ext sampler_name ao_state_sampler w of
        (None, w1) \<Rightarrow>
          Inl (AssertionError (''AO sampler '' @ apos @ sampler_name @ apos @ '' failed''))
      | (Some sampler_states, w1) \<Rightarrow>
          sample_ao_states ext rest (merge_sampler_states sampler_states states) w1)"

subsection \<open>Object placements\<close>

fun sample_object_placements ::
  "'w externals \<Rightarrow> bool \<Rightarrow> (string, obj_sampler) dict \<Rightarrow>
   (string, rigid_object list) dict \<times> rigid_object list \<times> 'w \<Rightarrow>
   (string, rigid_object list) dict \<times> rigid_object list \<times> 'w"
where
  "sample_object_placements ext render [] st = st"
| "sample_object_placements ext render ((sampler_name, sampler) # rest)
     (sampled_objects, ep_sampled_objects, w) =
     (case obj_sampler_sample ext sampler_name sampler True render w of
        (new_objects, w1) \<Rightarrow>
          sample_object_placements ext render rest
            ((case map_of sampled_objects sampler_name of
                None \<Rightarrow> AList.update sampler_name new_objects sampled_objects
              | Some present \<Rightarrow>
                  AList.update sampler_name (present @ new_objects) sampled_objects),
             ep_sampled_objects @ new_objects,
             (if render then
                fold (\<lambda>new_object w'.
                        vdb ext GetObservation
                          (vdb ext (LookAt (translation ext w' (handle new_object))) w'))
                  new_objects w1
              else w1)))"

subsection \<open>Settling\<close>

text \<open>
  The sum, difference, scaling and length of vectors are operations of the simulator's
  vector library (the fields \<open>vec_add\<close>, \<open>vec_sub\<close>, \<open>vec_div\<close> and
  \<open>vec_length\<close>); their results are floats as the library rounds them. A new vector is
  the zero vector. The literal \<^verbatim>\<open>0.1\<close> denotes the double nearest to one tenth.
\<close>

definition zero_vec :: vec3 where
  "zero_vec = (Finite 0, Finite 0, Finite 0)"

definition error_eps :: pyfloat where
  "error_eps = Finite (3602879701896397 / 36028797018963968)"

text \<open>Python's \<^verbatim>\<open>/\<close> on numbers raises on a zero divisor.\<close>

definition py_truediv :: "real \<Rightarrow> real \<Rightarrow> error + real" where
  "py_truediv a b = (if b = 0 then Inl ZeroDivisionError else Inr (a / b))"

fun record_spawn_positions ::
  "'w externals \<Rightarrow> 'w \<Rightarrow> rigid_object list \<Rightarrow> (string, vec3) dict \<times> vec3 \<Rightarrow>
   (string, vec3) dict \<times> vec3"
where
  "record_spawn_positions ext w [] acc = acc"
| "record_spawn_positions ext w (new_object # rest) (spawn_positions, new_obj_centroid) =
     record_spawn_positions ext w rest
       (AList.update (handle new_object) (translation ext w (handle new_object)) spawn_positions,
        vec_add ext new_obj_centroid (translation ext w (handle new_object)))"

text \<open>
  \<^verbatim>\<open>while self.sim.get_world_time() < duration: self.sim.step_world(1.0 / 30.0)\<close>.
  Nothing in the generator bounds the number of steps.
\<close>

partial_function (option) settle_loop ::
  "'w externals \<Rightarrow> bool \<Rightarrow> real \<Rightarrow> 'w \<Rightarrow> 'w option"
where
  "settle_loop ext render duration w =
     (if get_world_time ext w < duration then
        settle_loop ext render duration
          (if render then vdb ext GetObservation (step_world ext (1 / 30) w)
           else step_world ext (1 / 30) w)
      else Some w)"

text \<open>
  The stability report: the largest displacement and the handles of the unstable
  placements. The displacement is compared as a float: \<^verbatim>\<open>error > error_eps\<close>, and
  \<^verbatim>\<open>max(max_settle_displacement, error)\<close>.
\<close>

fun placement_stability ::
  "'w externals \<Rightarrow> 'w \<Rightarrow> (string, vec3) dict \<Rightarrow> rigid_object list \<Rightarrow>
   pyfloat \<times> string list \<Rightarrow> error + (pyfloat \<times> string list)"
where
  "placement_stability ext w spawn_positions [] report = Inr report"
| "placement_stability ext w spawn_positions (new_object # rest)
     (max_settle_displacement, unstable_placements) =
     (case map_of spawn_positions (handle new_object) of
        None \<Rightarrow> Inl (KeyError (handle new_object))
      | Some spawn_position \<Rightarrow>
          placement_stability ext w spawn_positions rest
            (py_max max_settle_displacement
               (vec_length ext
                  (vec_sub ext spawn_position (translation ext w (handle new_object)))),
             (if float_gt
                   (vec_length ext
                      (vec_sub ext spawn_position (translation ext w (handle new_object))))
                   error_eps
              then unstable_placements @ [handle new_object]
              else unstable_placements)))"

text \<open>
  \<^verbatim>\<open>settle_sim\<close>. The spawn positions and the centroid are taken from the world at
  call time. The centroid is divided by the object count by the vector library (no
  exception there); it only aims the first debug observation, after which the stepping
  loop starts. The unstable percentage of the report is divided as numbers.
\<close>

definition settle_start :: "'w externals \<Rightarrow> 'w generator \<Rightarrow> 'w" where
  "settle_start ext g =
     (if self_render_debug_obs g then
        vdb ext
          (GetObservationFrom
             (vec_div ext
                (snd (record_spawn_positions ext (self_sim g) (self_ep_sampled_objects g)
                        ([], zero_vec)))
                (real (length (self_ep_sampled_objects g)))))
          (self_sim g)
      else self_sim g)"

definition settle_sim ::
  "'w externals \<Rightarrow> 'w generator \<Rightarrow> real \<Rightarrow> bool \<Rightarrow> (error + (bool \<times> 'w generator)) option"
where
  "settle_sim ext g duration make_video =
     (if \<not> length (self_ep_sampled_objects g) > 0 then Some (Inl (AssertionError []))
      else
        (case settle_loop ext (self_render_debug_obs g) duration (settle_start ext g) of
           None \<Rightarrow> None
         | Some w2 \<Rightarrow>
             (case placement_stability ext w2
                     (fst (record_spawn_positions ext (self_sim g) (self_ep_sampled_objects g)
                             ([], zero_vec)))
                     (self_ep_sampled_objects g) (Finite 0, []) of
                Inl e \<Rightarrow> Some (Inl e)
              | Inr (max_settle_displacement, unstable_placements) \<Rightarrow>
                  (case py_truediv (real (length unstable_placements))
                          (real (length (self_ep_sampled_objects g))) of
                     Inl e \<Rightarrow> Some (Inl e)
                   | Inr unstable_fraction \<Rightarrow>
                       Some (Inr (length unstable_placements = 0,
                                  g \<lparr> self_sim :=
                                        (if self_render_debug_obs g \<and> make_video then
                                           vdb ext (MakeDebugVideo ''settle_'') w2
                                         else w2) \<rparr>))))))"

text \<open>
  The displacement that the stability report compares with \<open>error_eps\<close>: the distance
  between an object's translation in the world at call time and in the world after the
  stepping loop.
\<close>

definition settle_displacement ::
  "'w externals \<Rightarrow> 'w \<Rightarrow> 'w \<Rightarrow> rigid_object \<Rightarrow> pyfloat"
where
  "settle_displacement ext w_before w_after x =
     vec_length ext (vec_sub ext (translation ext w_before (handle x))
                                 (translation ext w_after (handle x)))"

subsection \<open>Targets\<close>

text \<open>
  The loop over one target sampler's result: the duplicate check, then the target's
  transformation is stored under the instance handle and the target object is removed.
\<close>

fun cache_targets ::
  "'w externals \<Rightarrow> bool \<Rightarrow> (string, rigid_object) dict \<Rightarrow> (string, matrix) dict \<times> 'w \<Rightarrow>
   error + ((string, matrix) dict \<times> 'w)"
where
  "cache_targets ext render [] st = Inr st"
| "cache_targets ext render ((instance_handle, target_object) # rest) (sampled_targets, w) =
     (if instance_handle \<in> set (map fst sampled_targets) then
        Inl (AssertionError
          (''Duplicate target for instance '' @ apos @ instance_handle @ apos @ ''.''))
      else
        cache_targets ext render rest
          (AList.update instance_handle (transformation ext w (handle target_object))
             sampled_targets,
           (if render then
              vdb ext
                (TargetWireBox instance_handle (transformation ext w (handle target_object)))
                (remove_object_by_handle ext (handle target_object) w)
            else remove_object_by_handle ext (handle target_object) w)))"

fun sample_targets ::
  "'w externals \<Rightarrow> bool \<Rightarrow> (string, target_sampler) dict \<Rightarrow> (string, matrix) dict \<times> 'w \<Rightarrow>
   error + ((string, matrix) dict \<times> 'w)"
where
  "sample_targets ext render [] st = Inr st"
| "sample_targets ext render ((sampler_name, sampler) # rest) (sampled_targets, w) =
     (case target_sampler_sample ext sampler_name sampler True w of
        (new_target_objects, w1) \<Rightarrow>
          (case cache_targets ext render new_target_objects (sampled_targets, w1) of
             Inl e \<Rightarrow> Inl e
           | Inr st \<Rightarrow> sample_targets ext render rest st))"

subsection \<open>The episode record\<close>

text \<open>Python's \<^verbatim>\<open>str\<close> on an integer: decimal digits, with a sign when negative.\<close>

definition digit_char :: "nat \<Rightarrow> char" where
  "digit_char d = ''0123456789'' ! d"

fun str_nat :: "nat \<Rightarrow> string" where
  "str_nat n = (if n < 10 then [digit_char n] else str_nat (n div 10) @ [digit_char (n mod 10)])"

definition str :: "int \<Rightarrow> string" where
  "str i = (if i < 0 then CHR ''-'' # str_nat (nat (- i)) else str_nat (nat i))"

text \<open>
  \<^verbatim>\<open>generate_single_episode\<close> in three parts. The first is the body up to the
  settle gate: the samplers are reset, the episode data emptied, the scene sampled, then
  the articulated-object states and the object placements.
\<close>

definition sample_episode_state ::
  "'w externals \<Rightarrow> 'w generator \<Rightarrow> error + (string \<times> ao_states_t \<times> 'w generator)"
where
  "sample_episode_state ext g0 =
     (case generate_scene ext
             ((reset_samplers ext g0) \<lparr> self_sampled_objects := [], self_sampled_targets := [] \<rparr>) of
        Inl e \<Rightarrow> Inl e
      | Inr (ep_scene_handle, g1) \<Rightarrow>
          (case sample_ao_states ext (self_ao_state_samplers g1) [] (self_sim g1) of
             Inl e \<Rightarrow> Inl e
           | Inr (states, w2) \<Rightarrow>
               (case sample_object_placements ext (self_render_debug_obs g1)
                       (self_obj_samplers g1)
                       (self_sampled_objects g1, self_ep_sampled_objects g1, w2) of
                  (sampled_objects, ep_sampled_objects, w3) \<Rightarrow>
                    Inr (ep_scene_handle, states,
                         g1 \<lparr> self_sampled_objects := sampled_objects,
                               self_ep_sampled_objects := ep_sampled_objects,
                               self_sim := w3 \<rparr>))))"

text \<open>
  The last part is the body after the settle gate: the target samplers are built, the
  targets sampled, the counter advanced and the record assembled.
\<close>

definition assemble_episode ::
  "'w externals \<Rightarrow> string \<Rightarrow> ao_states_t \<Rightarrow> 'w generator \<Rightarrow> error + (episode \<times> 'w generator)"
where
  "assemble_episode ext ep_scene_handle states g4 =
     (case get_object_target_samplers (self_sampled_objects g4) (self_receptacle_sets g4)
             (cfg_obj_target_samplers (self_cfg g4)) [] of
        Inl e \<Rightarrow> Inl e
      | Inr target_samplers \<Rightarrow>
          (case sample_targets ext (self_render_debug_obs g4) target_samplers
                  (self_sampled_targets g4, self_sim g4) of
             Inl e \<Rightarrow> Inl e
           | Inr (sampled_targets, w5) \<Rightarrow>
               Inr (\<lparr> episode_id = str (self_num_ep_generated g4 + 1 - 1),
                       start_position = [0, 0, 0],
                       start_rotation = [0, 0, 0, 1],
                       scene_id = ep_scene_handle,
                       ao_states = states,
                       rigid_objs =
                         map (\<lambda>x. (creation_attributes_handle x,
                                    transformation ext w5 (handle x)))
                           (self_ep_sampled_objects g4),
                       targets = sampled_targets,
                       markers = cfg_markers (self_cfg g4) \<rparr>,
                    g4 \<lparr> self_target_samplers := target_samplers,
                          self_sampled_targets := sampled_targets,
                          self_sim := w5,
                          self_num_ep_generated := self_num_ep_generated g4 + 1 \<rparr>)))"

text \<open>
  The whole function. The result \<open>Inr (None, g)\<close> is the Python \<^verbatim>\<open>return None\<close>
  of an unstable state; \<^verbatim>\<open>settle_sim\<close> is called with its defaults.
\<close>

definition generate_single_episode ::
  "'w externals \<Rightarrow> 'w generator \<Rightarrow> (error + (episode option \<times> 'w generator)) option"
where
  "generate_single_episode ext g0 =
     (case sample_episode_state ext g0 of
        Inl e \<Rightarrow> Some (Inl e)
      | Inr (ep_scene_handle, states, g3) \<Rightarrow>
          (case settle_sim ext g3 5 True of
             None \<Rightarrow> None
           | Some (Inl e) \<Rightarrow> Some (Inl e)
           | Some (Inr (is_stable, g4)) \<Rightarrow>
               if \<not> is_stable then Some (Inr (None, g4))
               else
                 (case assemble_episode ext ep_scene_handle states g4 of
                    Inl e \<Rightarrow> Some (Inl e)
                  | Inr (new_episode, g5) \<Rightarrow> Some (Inr (Some new_episode, g5)))))"

section \<open>Generating a number of episodes\<close>

text \<open>
  The loop of \<^verbatim>\<open>generate_episodes\<close>, on the list of generated episodes, the count
  of failed episodes and the generator. The loop has no handler: an exception of
  \<^verbatim>\<open>generate_single_episode\<close> leaves it.
\<close>

partial_function (option) generate_episodes_loop ::
  "'w externals \<Rightarrow> int \<Rightarrow> episode option list \<Rightarrow> int \<Rightarrow> 'w generator \<Rightarrow>
   (error + (episode option list \<times> int \<times> 'w generator)) option"
where
  "generate_episodes_loop ext num_episodes generated_episodes failed_episodes g =
     (if int (length generated_episodes) < num_episodes then
        (case generate_single_episode ext g of
           None \<Rightarrow> None
         | Some (Inl e) \<Rightarrow> Some (Inl e)
         | Some (Inr (new_episode, g1)) \<Rightarrow>
             if new_episode = None then
               generate_episodes_loop ext num_episodes generated_episodes (failed_episodes + 1) g1
             else
               generate_episodes_loop ext num_episodes (generated_episodes @ [new_episode])
                 failed_episodes g1)
      else Some (Inr (generated_episodes, failed_episodes, g)))"

definition generate_episodes ::
  "'w externals \<Rightarrow> 'w generator \<Rightarrow> int \<Rightarrow> (error + (episode option list \<times> 'w generator)) option"
where
  "generate_episodes ext g num_episodes =
     (case generate_episodes_loop ext num_episodes [] 0 g of
        None \<Rightarrow> None
      | Some (Inl e) \<Rightarrow> Some (Inl e)
      | Some (Inr (generated_episodes, failed_episodes, g1)) \<Rightarrow>
          Some (Inr (generated_episodes, g1)))"

section \<open>The default configuration and a small simulated world\<close>

text \<open>\<^verbatim>\<open>get_config_defaults\<close>, the configuration the module ships.\<close>

definition get_config_defaults :: config where
  "get_config_defaults =
     \<lparr> cfg_dataset_path = ''data/replica_cad/replicaCAD.scene_dataset_config.json'',
       cfg_additional_object_paths = [''data/objects/ycb/''],
       cfg_scene_sets =
         [(''default'', [''v3_sc0_staging_00'']),
          (''any'', [[]]),
          (''v3_sc'', [''v3_sc'']),
          (''original'', [''apt_''])],
       cfg_object_sets =
         [(''any'',
           [''002_master_chef_can'', ''003_cracker_box'', ''004_sugar_box'',
            ''005_tomato_soup_can'', ''007_tuna_fish_can'', ''008_pudding_box'',
            ''009_gelatin_box'', ''010_potted_meat_can'', ''024_bowl'']),
          (''cheezit'', [''003_cracker_box''])],
       cfg_receptacle_sets =
         [(''table'', [''frl_apartment_table_01'']),
          (''table3'', [''frl_apartment_table_03'']),
          (''any'',
           [''frl_apartment_table_01'', ''frl_apartment_table_02'',
            ''frl_apartment_table_03'', ''frl_apartment_chair_01'']),
          (''fridge'', [''fridge''])],
       cfg_scene_sampler = (''single'', [PStr ''v3_sc0_staging_00'']),
       cfg_obj_samplers =
         [(''any'', ''uniform'', [''any''], [''any''], 20, 50, ''up''),
          (''fridge'', ''uniform'', [''any''], [''fridge''], 1, 30, ''up'')],
       cfg_obj_target_samplers = [],
       cfg_ao_state_samplers =
         [(''open_fridge_doors'', ''composite'',
           AOCompositeParams [(''fridge'', [(''top_door'', 1.5, 1.5), (''bottom_door'', 1.5, 1.5)])])],
       cfg_markers =
         [(''fridge_push_point'', ''articulated_object'', [''fridge'', ''bottom_door''],
           (0.1, - 0.62, - 0.2)),
          (''chair'', ''rigid_object'', [''frl_apartment_chair_01''], (0.1, - 0.62, - 0.2))] \<rparr>"

text \<open>
  A small deterministic world to run the generator on. Its state is the simulated time,
  the loaded scene, how far the placed objects have sunk since the scene was loaded, and
  the number of scene loads. Every object sampler places one object, at height 1; during
  the first \<open>unstable_attempts\<close> scene loads the objects sink by 0.01 per physics step,
  afterwards they rest. The articulated-object samplers return the two fridge doors, or
  fail when \<open>ao_ok\<close> is false. A target sampler returns one target per object instance.
  Its vector library computes on numbers exactly and returns NaN as soon as an operand is
  not a number.
\<close>

datatype demo_world =
  DemoWorld (clock: real) (loaded_scene: string) (sunk: real) (attempts: nat)

fun float_lift2 :: "(real \<Rightarrow> real \<Rightarrow> real) \<Rightarrow> pyfloat \<Rightarrow> pyfloat \<Rightarrow> pyfloat" where
  "float_lift2 f (Finite a) (Finite b) = Finite (f a b)"
| "float_lift2 f a b = NaN"

fun demo_vec_add :: "vec3 \<Rightarrow> vec3 \<Rightarrow> vec3" where
  "demo_vec_add (x1, y1, z1) (x2, y2, z2) =
     (float_lift2 (+) x1 x2, float_lift2 (+) y1 y2, float_lift2 (+) z1 z2)"

fun demo_vec_sub :: "vec3 \<Rightarrow> vec3 \<Rightarrow> vec3" where
  "demo_vec_sub (x1, y1, z1) (x2, y2, z2) =
     (float_lift2 (-) x1 x2, float_lift2 (-) y1 y2, float_lift2 (-) z1 z2)"

fun demo_vec_div :: "vec3 \<Rightarrow> real \<Rightarrow> vec3" where
  "demo_vec_div (x, y, z) c =
     (float_lift2 (/) x (Finite c), float_lift2 (/) y (Finite c), float_lift2 (/) z (Finite c))"

fun demo_vec_length :: "vec3 \<Rightarrow> pyfloat" where
  "demo_vec_length (Finite x, Finite y, Finite z) = Finite (sqrt (x * x + y * y + z * z))"
| "demo_vec_length v = NaN"

definition demo_ext :: "nat \<Rightarrow> bool \<Rightarrow> demo_world externals" where
  "demo_ext unstable_attempts ao_ok =
     \<lparr> sim_create = (\<lambda>scene_name dataset_path object_paths. DemoWorld 0 scene_name 0 0),
       sim_reconfigure =
         (\<lambda>scene_name dataset_path w. DemoWorld 0 scene_name 0 (Suc (attempts w))),
       sim_scene_id = loaded_scene,
       sim_set_scene_id = (\<lambda>scene_name w. DemoWorld (clock w) scene_name (sunk w) (attempts w)),
       sim_setup_camera = (\<lambda>w. w),
       get_world_time = clock,
       step_world =
         (\<lambda>dt w. DemoWorld (clock w + dt) (loaded_scene w)
                   (sunk w + (if attempts w \<le> unstable_attempts then 1 / 100 else 0))
                   (attempts w)),
       translation = (\<lambda>w h. (Finite 0, Finite (1 - sunk w), Finite 0)),
       transformation =
         (\<lambda>w h. [[1, 0, 0, 0], [0, 1, 0, 1 - sunk w], [0, 0, 1, 0], [0, 0, 0, 1]]),
       vec_add = demo_vec_add,
       vec_sub = demo_vec_sub,
       vec_div = demo_vec_div,
       vec_length = demo_vec_length,
       remove_object_by_handle = (\<lambda>h w. w),
       vdb = (\<lambda>op w. w),
       scene_sampler_reset = (\<lambda>sampler w. w),
       scene_sampler_sample = (\<lambda>sampler w. (''v3_sc0_staging_00'', w)),
       obj_sampler_reset = (\<lambda>sampler_name sampler w. w),
       obj_sampler_sample =
         (\<lambda>sampler_name sampler snap_down with_vdb w.
            ([\<lparr> handle = sampler_name @ ''_:0000'',
                 creation_attributes_handle = ''003_cracker_box'' \<rparr>], w)),
       ao_sampler_sample =
         (\<lambda>sampler_name sampler w.
            (if ao_ok then Some [(''fridge_:0000'', [(1, 1.5), (2, 1.5)])] else None, w)),
       target_sampler_sample =
         (\<lambda>sampler_name sampler snap_down w.
            (case sampler of
               ObjectTargetSampler object_instances receptacles num_targets orientation \<Rightarrow>
                 (map (\<lambda>x. (handle x,
                             \<lparr> handle = handle x @ ''_target'',
                               creation_attributes_handle = creation_attributes_handle x \<rparr>))
                    object_instances,
                  w))) \<rparr>"


text \<open>
  The default configuration with the target sampler its comments propose, and the same
  with a target sampler of an unknown type.
\<close>

definition demo_cfg :: config where
  "demo_cfg =
     get_config_defaults
       \<lparr> cfg_obj_target_samplers :=
           [(''any_targets'', ''uniform'', [''any''], [''table''], 3, 3, ''up'')] \<rparr>"

definition bad_target_cfg :: config where
  "bad_target_cfg =
     get_config_defaults
       \<lparr> cfg_obj_target_samplers :=
           [(''any_targets'', ''gaussian'', [''any''], [''table''], 3, 3, ''up'')] \<rparr>"

text \<open>
  The generator the constructor builds for \<open>demo_cfg\<close> in this world, and its state
  at the settle gate of its first episode.
\<close>

definition demo_generator :: "demo_world generator" where
  "demo_generator = projr (generator_init (demo_ext 0 True) demo_cfg False)"

definition demo_placed :: "demo_world generator" where
  "demo_placed = snd (snd (projr (sample_episode_state (demo_ext 0 True) demo_generator)))"

text \<open>
  Configurations with one error each: no object sampler at all, two target samplers for
  the same object instances, an object sampler name used twice, an articulated-object
  state sampler of an unknown type, and a scene subset sampler that names an undefined
  scene set.
\<close>

definition no_objects_cfg :: config where
  "no_objects_cfg = get_config_defaults \<lparr> cfg_obj_samplers := [] \<rparr>"

definition duplicate_target_cfg :: config where
  "duplicate_target_cfg =
     get_config_defaults
       \<lparr> cfg_obj_target_samplers :=
           [(''any_targets'', ''uniform'', [''any''], [''table''], 3, 3, ''up''),
            (''more_targets'', ''uniform'', [''any''], [''table3''], 1, 1, ''up'')] \<rparr>"

definition duplicate_obj_sampler_cfg :: config where
  "duplicate_obj_sampler_cfg =
     get_config_defaults
       \<lparr> cfg_obj_samplers :=
           [(''any'', ''uniform'', [''any''], [''any''], 20, 50, ''up''),
            (''any'', ''uniform'', [''any''], [''fridge''], 1, 30, ''up'')] \<rparr>"

definition unknown_ao_type_cfg :: config where
  "unknown_ao_type_cfg =
     get_config_defaults
       \<lparr> cfg_ao_state_samplers :=
           [(''open_fridge_top_door'', ''gaussian'',
             AOUniformParams ''fridge'' ''top_door'' 1.5 1.5)] \<rparr>"

definition undefined_scene_set_cfg :: config where
  "undefined_scene_set_cfg =
     get_config_defaults \<lparr> cfg_scene_sampler := (''subset'', [PList [''v4_sc''], PList []]) \<rparr>"

text \<open>Reading \<^verbatim>\<open>ao_states[instance][link_ix]\<close>.\<close>

definition ao_state_lookup :: "ao_states_t \<Rightarrow> string \<Rightarrow> int \<Rightarrow> real option" where
  "ao_state_lookup states instance link_ix =
     (case map_of states instance of
        None \<Rightarrow> None
      | Some link_states \<Rightarrow> map_of link_states link_ix)"

section \<open>Running the generator in the small world\<close>

text \<open>The operations of the small world, and its stepping loop: 150 steps of 1/30 reach time 5.\<close>

lemma demo_ext_sel:
  "sim_create (demo_ext k a) = (\<lambda>scene_name dataset_path object_paths. DemoWorld 0 scene_name 0 0)"
  "sim_reconfigure (demo_ext k a) =
     (\<lambda>scene_name dataset_path w. DemoWorld 0 scene_name 0 (Suc (attempts w)))"
  "sim_scene_id (demo_ext k a) = loaded_scene"
  "sim_set_scene_id (demo_ext k a) =
     (\<lambda>scene_name w. DemoWorld (clock w) scene_name (sunk w) (attempts w))"
  "sim_setup_camera (demo_ext k a) = (\<lambda>w. w)"
  "get_world_time (demo_ext k a) = clock"
  "step_world (demo_ext k a) =
     (\<lambda>dt w. DemoWorld (clock w + dt) (loaded_scene w)
               (sunk w + (if attempts w \<le> k then 1 / 100 else 0)) (attempts w))"
  "translation (demo_ext k a) = (\<lambda>w h. (Finite 0, Finite (1 - sunk w), Finite 0))"
  "transformation (demo_ext k a) =
     (\<lambda>w h. [[1, 0, 0, 0], [0, 1, 0, 1 - sunk w], [0, 0, 1, 0], [0, 0, 0, 1]])"
  "vec_add (demo_ext k a) = demo_vec_add"
  "vec_sub (demo_ext k a) = demo_vec_sub"
  "vec_div (demo_ext k a) = demo_vec_div"
  "vec_length (demo_ext k a) = demo_vec_length"
  "remove_object_by_handle (demo_ext k a) = (\<lambda>h w. w)"
  "vdb (demo_ext k a) = (\<lambda>op w. w)"
  "scene_sampler_reset (demo_ext k a) = (\<lambda>sampler w. w)"
  "scene_sampler_sample (demo_ext k a) = (\<lambda>sampler w. (''v3_sc0_staging_00'', w))"
  "obj_sampler_reset (demo_ext k a) = (\<lambda>sampler_name sampler w. w)"
  "obj_sampler_sample (demo_ext k a) =
     (\<lambda>sampler_name sampler snap_down with_vdb w.
        ([\<lparr> handle = sampler_name @ ''_:0000'',
             creation_attributes_handle = ''003_cracker_box'' \<rparr>], w))"
  "ao_sampler_sample (demo_ext k a) =
     (\<lambda>sampler_name sampler w.
        (if a then Some [(''fridge_:0000'', [(1, 1.5), (2, 1.5)])] else None, w))"
  "target_sampler_sample (demo_ext k a) =
     (\<lambda>sampler_name sampler snap_down w.
        (case sampler of
           ObjectTargetSampler object_instances receptacles num_targets orientation \<Rightarrow>
             (map (\<lambda>x. (handle x,
                         \<lparr> handle = handle x @ ''_target'',
                           creation_attributes_handle = creation_attributes_handle x \<rparr>))
                object_instances,
              w)))"
  by (simp_all add: demo_ext_def)

lemma demo_settle_loop:
  "settle_loop (demo_ext k a) False 5 (DemoWorld (5 - real n / 30) s d t) =
     Some (DemoWorld 5 s (d + real n * (if t \<le> k then 1 / 100 else 0)) t)"
proof (induction n arbitrary: d)
  case 0
  show ?case by (subst settle_loop.simps) (simp add: demo_ext_sel)
next
  case (Suc n)
  have step: "5 - real (Suc n) / 30 + 1 / 30 = 5 - real n / 30"
    by (simp add: field_simps)
  have "settle_loop (demo_ext k a) False 5 (DemoWorld (5 - real (Suc n) / 30) s d t) =
        settle_loop (demo_ext k a) False 5
          (DemoWorld (5 - real n / 30) s (d + (if t \<le> k then 1 / 100 else 0)) t)"
    by (subst settle_loop.simps) (simp add: demo_ext_sel step del: of_nat_Suc)
  then show ?case
    by (simp add: Suc algebra_simps)
qed

lemma demo_settle_150:
  "settle_loop (demo_ext k a) False 5 (DemoWorld 0 s 0 t) =
     Some (DemoWorld 5 s (if t \<le> k then 3 / 2 else 0) t)"
  using demo_settle_loop [of k a 150 s 0 t] by simp

lemma demo_vec_length_axis: "demo_vec_length (Finite 0, Finite y, Finite 0) = Finite \<bar>y\<bar>"
  by simp

lemmas demo_defs =
  generator_init_def demo_cfg_def get_config_defaults_def initialize_sim_def
  get_scene_sampler_def apos_def generate_single_episode_def sample_episode_state_def
  assemble_episode_def settle_sim_def settle_start_def generate_scene_def reset_samplers_def
  py_truediv_def error_eps_def str_def digit_char_def Let_def

lemma demo_init: "generator_init (demo_ext k a) demo_cfg dbg = Inr (demo_generator \<lparr> self_render_debug_obs := dbg, self_make_debug_video := dbg \<rparr>)"
  by (simp add: demo_generator_def demo_defs demo_ext_sel)

lemma demo_placed_fields:
  "self_ep_sampled_objects demo_placed =
     [\<lparr> handle = ''any_:0000'', creation_attributes_handle = ''003_cracker_box'' \<rparr>,
      \<lparr> handle = ''fridge_:0000'', creation_attributes_handle = ''003_cracker_box'' \<rparr>]"
  "self_sim demo_placed = DemoWorld 0 ''v3_sc0_staging_00'' 0 1"
  "self_render_debug_obs demo_placed = False"
  by (simp_all add: demo_placed_def demo_generator_def demo_defs demo_ext_sel)

section \<open>The settle gate\<close>


lemma record_spawn_positions_lookup:
  "map_of (fst (record_spawn_positions ext w objs (sp, c))) h =
     (if h \<in> handle ` set objs then Some (translation ext w h) else map_of sp h)"
  by (induction objs arbitrary: sp c) (auto simp: update_conv')

lemma placement_stability_result:
  assumes "\<forall>x\<in>set objs. map_of sp (handle x) = Some (translation ext w0 (handle x))"
  shows "placement_stability ext w2 sp objs (m, u) =
           Inr (fold (\<lambda>x m. py_max m (settle_displacement ext w0 w2 x)) objs m,
                u @ map handle
                      (filter (\<lambda>x. float_gt (settle_displacement ext w0 w2 x) error_eps) objs))"
  using assms
  by (induction objs arbitrary: m u) (auto simp: settle_displacement_def)


lemma settle_sim_returns:
  assumes "self_ep_sampled_objects g \<noteq> []"
      and "settle_loop ext (self_render_debug_obs g) duration (settle_start ext g) = Some w2"
  shows "placement_stability ext w2
           (fst (record_spawn_positions ext (self_sim g) (self_ep_sampled_objects g)
                   ([], zero_vec)))
           (self_ep_sampled_objects g) (Finite 0, []) =
         Inr (fold (\<lambda>x m. py_max m (settle_displacement ext (self_sim g) w2 x))
                (self_ep_sampled_objects g) (Finite 0),
              map handle
                (filter (\<lambda>x. float_gt (settle_displacement ext (self_sim g) w2 x) error_eps)
                   (self_ep_sampled_objects g)))"
    and "settle_sim ext g duration make_video =
           Some (Inr ((\<forall>x\<in>set (self_ep_sampled_objects g).
                         \<not> float_gt (settle_displacement ext (self_sim g) w2 x) error_eps),
                      g \<lparr> self_sim :=
                            (if self_render_debug_obs g \<and> make_video then
                               vdb ext (MakeDebugVideo ''settle_'') w2
                             else w2) \<rparr>))"
proof -
  let ?objs = "self_ep_sampled_objects g"
  let ?sp = "fst (record_spawn_positions ext (self_sim g) ?objs ([], zero_vec))"
  have sp: "\<forall>x\<in>set ?objs. map_of ?sp (handle x) = Some (translation ext (self_sim g) (handle x))"
    by (simp add: record_spawn_positions_lookup)
  show report: "placement_stability ext w2 ?sp ?objs (Finite 0, []) =
      Inr (fold (\<lambda>x m. py_max m (settle_displacement ext (self_sim g) w2 x)) ?objs (Finite 0),
           map handle
             (filter (\<lambda>x. float_gt (settle_displacement ext (self_sim g) w2 x) error_eps) ?objs))"
    using placement_stability_result [OF sp, of w2 "Finite 0" "[]"] by simp
  show "settle_sim ext g duration make_video =
      Some (Inr ((\<forall>x\<in>set ?objs.
                    \<not> float_gt (settle_displacement ext (self_sim g) w2 x) error_eps),
                 g \<lparr> self_sim :=
                       (if self_render_debug_obs g \<and> make_video then
                          vdb ext (MakeDebugVideo ''settle_'') w2
                        else w2) \<rparr>))"
    using assms
    by (simp add: settle_sim_def report py_truediv_def filter_empty_conv)
qed








section \<open>One episode and the retry loop\<close>

lemma sample_episode_state_keeps:
  assumes "sample_episode_state ext g0 = Inr (h, st, g3)"
  shows "self_num_ep_generated g3 = self_num_ep_generated g0"
    and "self_sampled_targets g3 = []"
    and "self_cfg g3 = self_cfg g0"
    and "self_target_samplers g3 = self_target_samplers g0"
  using assms
  by (auto simp: sample_episode_state_def generate_scene_def reset_samplers_def
           split: sum.splits prod.splits)

lemma settle_sim_keeps:
  assumes "settle_sim ext g duration make_video = Some (Inr (b, g'))"
  shows "g' = g \<lparr> self_sim := self_sim g' \<rparr>"
    and "self_num_ep_generated g' = self_num_ep_generated g"
    and "self_sampled_targets g' = self_sampled_targets g"
    and "self_target_samplers g' = self_target_samplers g"
    and "self_ep_sampled_objects g' = self_ep_sampled_objects g"
  using assms
  by (auto simp: settle_sim_def split: if_splits option.splits sum.splits prod.splits)

lemma assemble_episode_result:
  assumes "assemble_episode ext h st g4 = Inr (ep, g5)"
  shows "episode_id ep = str (self_num_ep_generated g4)"
    and "self_num_ep_generated g5 = self_num_ep_generated g4 + 1"
    and "start_position ep = [0, 0, 0]"
    and "start_rotation ep = [0, 0, 0, 1]"
    and "scene_id ep = h"
    and "ao_states ep = st"
  using assms
  by (auto simp: assemble_episode_def split: sum.splits prod.splits)

lemma generate_single_episode_cases:
  assumes "generate_single_episode ext g0 = Some (Inr (r, g'))"
  obtains (rejected) h st g3 where
      "sample_episode_state ext g0 = Inr (h, st, g3)"
      "settle_sim ext g3 5 True = Some (Inr (False, g'))" "r = None"
  | (accepted) h st g3 g4 ep where
      "sample_episode_state ext g0 = Inr (h, st, g3)"
      "settle_sim ext g3 5 True = Some (Inr (True, g4))"
      "assemble_episode ext h st g4 = Inr (ep, g')" "r = Some ep"
  using assms
  by (auto simp: generate_single_episode_def
           split: sum.splits prod.splits option.splits if_splits)

lemma accepted_episode:
  assumes "generate_single_episode ext g0 = Some (Inr (Some ep, g'))"
  shows "episode_id ep = str (self_num_ep_generated g0)"
    and "self_num_ep_generated g' = self_num_ep_generated g0 + 1"
    and "start_position ep = [0, 0, 0]"
    and "start_rotation ep = [0, 0, 0, 1]"
proof -
  from assms obtain h st g3 g4 where
    s: "sample_episode_state ext g0 = Inr (h, st, g3)" and
    t: "settle_sim ext g3 5 True = Some (Inr (True, g4))" and
    a: "assemble_episode ext h st g4 = Inr (ep, g')"
    by (cases rule: generate_single_episode_cases) auto
  have n: "self_num_ep_generated g4 = self_num_ep_generated g0"
    using sample_episode_state_keeps(1) [OF s] settle_sim_keeps(2) [OF t] by simp
  show "episode_id ep = str (self_num_ep_generated g0)"
    and "self_num_ep_generated g' = self_num_ep_generated g0 + 1"
    and "start_position ep = [0, 0, 0]"
    and "start_rotation ep = [0, 0, 0, 1]"
    using assemble_episode_result [OF a] n by simp_all
qed

lemma rejected_episode:
  assumes "generate_single_episode ext g0 = Some (Inr (None, g'))"
  shows "self_num_ep_generated g' = self_num_ep_generated g0"
proof -
  from assms obtain h st g3 where
    s: "sample_episode_state ext g0 = Inr (h, st, g3)" and
    t: "settle_sim ext g3 5 True = Some (Inr (False, g'))"
    by (cases rule: generate_single_episode_cases) auto
  show ?thesis
    using sample_episode_state_keeps(1) [OF s] settle_sim_keeps(2) [OF t] by simp
qed

lemma generate_episodes_loop_result:
  assumes "generate_episodes_loop ext n eps failed g = Some (Inr (eps', failed', g'))"
  shows "\<exists>new. eps' = eps @ new
           \<and> (\<forall>i<length new. \<exists>ep. new ! i = Some ep
                  \<and> episode_id ep = str (self_num_ep_generated g + int i)
                  \<and> start_position ep = [0, 0, 0] \<and> start_rotation ep = [0, 0, 0, 1])
           \<and> self_num_ep_generated g' = self_num_ep_generated g + int (length new)
           \<and> (if int (length eps) < n then int (length eps') = n else new = [])"
proof -
  let ?Q = "\<lambda>n eps g eps' g'. \<exists>new. eps' = eps @ new
           \<and> (\<forall>i<length new. \<exists>ep. new ! i = Some ep
                  \<and> episode_id ep = str (self_num_ep_generated g + int i)
                  \<and> start_position ep = [0, 0, 0] \<and> start_rotation ep = [0, 0, 0, 1])
           \<and> self_num_ep_generated g' = self_num_ep_generated g + int (length new)
           \<and> (if int (length eps) < n then int (length eps') = n else new = [])"
  define P where "P = (\<lambda>(ext :: 'a externals) (n :: int) (eps :: episode option list)
              (failed :: int) (g :: 'a generator)
              (y :: error + (episode option list \<times> int \<times> 'a generator)).
              \<forall>eps' failed' g'. y = Inr (eps', failed', g') \<longrightarrow> ?Q n eps g eps' g')"
  have "P ext n eps failed g (Inr (eps', failed', g'))"
  proof (rule generate_episodes_loop.raw_induct [where P = P, OF _ assms])
    fix loop :: "'a externals \<Rightarrow> int \<Rightarrow> episode option list \<Rightarrow> int \<Rightarrow> 'a generator \<Rightarrow>
                 (error + (episode option list \<times> int \<times> 'a generator)) option"
    fix ext n eps failed g y
    assume IH: "\<And>ext n eps failed g y. loop ext n eps failed g = Some y \<Longrightarrow> P ext n eps failed g y"
    assume body: "(if int (length eps) < n then
        (case generate_single_episode ext g of
           None \<Rightarrow> None
         | Some (Inl e) \<Rightarrow> Some (Inl e)
         | Some (Inr (new_episode, g1)) \<Rightarrow>
             if new_episode = None then loop ext n eps (failed + 1) g1
             else loop ext n (eps @ [new_episode]) failed g1)
      else Some (Inr (eps, failed, g))) = Some y"
    show "P ext n eps failed g y"
      unfolding P_def
    proof (intro allI impI)
    fix eps' failed' g'
    assume y: "y = Inr (eps', failed', g')"
    show "?Q n eps g eps' g'"
    proof (cases "int (length eps) < n")
      case False
      with body y show ?thesis by simp
    next
      case lt: True
      with body y obtain r g1 where
        single: "generate_single_episode ext g = Some (Inr (r, g1))" and
        rest: "(if r = None then loop ext n eps (failed + 1) g1
               else loop ext n (eps @ [r]) failed g1) = Some y"
        by (auto split: option.splits sum.splits prod.splits)
      show ?thesis
      proof (cases r)
        case None
        with rest have "loop ext n eps (failed + 1) g1 = Some y" by simp
        from IH [OF this] y have "?Q n eps g1 eps' g'" unfolding P_def by blast
        moreover have "self_num_ep_generated g1 = self_num_ep_generated g"
          using rejected_episode single None by blast
        ultimately show ?thesis by simp
      next
        case (Some ep)
        with rest have "loop ext n (eps @ [Some ep]) failed g1 = Some y" by simp
        from IH [OF this] y have "?Q n (eps @ [Some ep]) g1 eps' g'" unfolding P_def by blast
        then obtain new1 where
          e: "eps' = (eps @ [Some ep]) @ new1" and
          ids: "\<forall>i<length new1. \<exists>ep. new1 ! i = Some ep
                  \<and> episode_id ep = str (self_num_ep_generated g1 + int i)
                  \<and> start_position ep = [0, 0, 0] \<and> start_rotation ep = [0, 0, 0, 1]" and
          cnt: "self_num_ep_generated g' = self_num_ep_generated g1 + int (length new1)" and
          len: "if int (length (eps @ [Some ep])) < n then int (length eps') = n else new1 = []"
          by blast
        have acc: "episode_id ep = str (self_num_ep_generated g)"
             "self_num_ep_generated g1 = self_num_ep_generated g + 1"
             "start_position ep = [0, 0, 0]" "start_rotation ep = [0, 0, 0, 1]"
          using accepted_episode [of ext g ep g1] single Some by simp_all
        have ids': "\<forall>i<length (Some ep # new1). \<exists>ep'. (Some ep # new1) ! i = Some ep'
                  \<and> episode_id ep' = str (self_num_ep_generated g + int i)
                  \<and> start_position ep' = [0, 0, 0] \<and> start_rotation ep' = [0, 0, 0, 1]"
        proof (intro allI impI)
          fix i assume i: "i < length (Some ep # new1)"
          show "\<exists>ep'. (Some ep # new1) ! i = Some ep'
                  \<and> episode_id ep' = str (self_num_ep_generated g + int i)
                  \<and> start_position ep' = [0, 0, 0] \<and> start_rotation ep' = [0, 0, 0, 1]"
          proof (cases i)
            case 0
            then show ?thesis using acc by simp
          next
            case (Suc j)
            with i have "j < length new1" by simp
            with ids obtain ep' where "new1 ! j = Some ep'"
              "episode_id ep' = str (self_num_ep_generated g1 + int j)"
              "start_position ep' = [0, 0, 0]" "start_rotation ep' = [0, 0, 0, 1]" by blast
            moreover have "self_num_ep_generated g1 + int j = self_num_ep_generated g + int i"
              using Suc acc(2) by simp
            ultimately show ?thesis using Suc by simp
          qed
        qed
        have len': "int (length eps') = n"
          using len lt e by (auto split: if_splits)
        show ?thesis
          apply (rule exI [of _ "Some ep # new1"])
          using e ids' cnt acc(2) len' lt by simp
      qed
    qed
    qed
  qed
  then show ?thesis unfolding P_def by blast
qed


text \<open>Runs in the small world.\<close>

lemma demo_generator_counter: "self_num_ep_generated demo_generator = 0"
  by (simp add: demo_generator_def demo_defs demo_ext_sel)

lemma demo_run:
  "\<exists>e0 e1 g'. generate_episodes_loop (demo_ext 1 True) 2 [] 0 demo_generator =
       Some (Inr ([Some e0, Some e1], 1, g'))
     \<and> episode_id e0 = ''0'' \<and> episode_id e1 = ''1'' \<and> self_num_ep_generated g' = 2"
  by (simp add: generate_episodes_loop.simps demo_generator_def demo_defs
        demo_ext_sel demo_settle_150 demo_vec_length_axis del: demo_vec_length.simps)

lemma demo_sample_episode_state:
  "sample_episode_state (demo_ext k True) demo_generator =
     Inr (''v3_sc0_staging_00'', [(''fridge_:0000'', [(1, 3 / 2), (2, 3 / 2)])], demo_placed)"
  by (simp add: demo_placed_def demo_generator_def demo_defs demo_ext_sel)

lemma demo_settle_sim:
  "settle_sim (demo_ext k True) demo_placed 5 True =
     Some (Inr (\<not> 1 \<le> k,
                demo_placed \<lparr> self_sim :=
                  DemoWorld 5 ''v3_sc0_staging_00'' (if 1 \<le> k then 3 / 2 else 0) 1 \<rparr>))"
  by (simp add: settle_sim_def settle_start_def demo_placed_fields demo_settle_150
        demo_ext_sel py_truediv_def error_eps_def demo_vec_length_axis del: demo_vec_length.simps)

lemma demo_first_episode:
  "\<exists>ep g1. generate_single_episode (demo_ext 0 True) demo_generator = Some (Inr (Some ep, g1))
     \<and> episode_id ep = ''0''
     \<and> ao_states ep = [(''fridge_:0000'', [(1, 3 / 2), (2, 3 / 2)])]
     \<and> map fst (targets ep) = [''any_:0000'']
     \<and> map fst (rigid_objs ep) = [''003_cracker_box'', ''003_cracker_box'']"
  by (simp add: demo_generator_def demo_defs
        demo_ext_sel demo_settle_150 demo_vec_length_axis del: demo_vec_length.simps)

text \<open>
  In the small world the first \<open>k\<close> attempts are unstable: the loop makes \<open>k\<close> failed
  attempts and then returns its episode, for every \<open>k\<close>.
\<close>

lemma demo_resample:
  "sample_episode_state (demo_ext k True)
     (demo_placed \<lparr> self_sim := DemoWorld c ''v3_sc0_staging_00'' d t \<rparr>) =
   Inr (''v3_sc0_staging_00'', [(''fridge_:0000'', [(1, 3 / 2), (2, 3 / 2)])],
        demo_placed \<lparr> self_sim := DemoWorld 0 ''v3_sc0_staging_00'' 0 (Suc t) \<rparr>)"
  by (simp add: demo_placed_def demo_generator_def demo_defs demo_ext_sel)

lemma demo_resettle:
  "settle_sim (demo_ext k True)
     (demo_placed \<lparr> self_sim := DemoWorld 0 ''v3_sc0_staging_00'' 0 t \<rparr>) 5 True =
   Some (Inr (\<not> t \<le> k,
              demo_placed \<lparr> self_sim :=
                DemoWorld 5 ''v3_sc0_staging_00'' (if t \<le> k then 3 / 2 else 0) t \<rparr>))"
  by (simp add: settle_sim_def settle_start_def demo_placed_fields demo_settle_150
        demo_ext_sel py_truediv_def error_eps_def demo_vec_length_axis del: demo_vec_length.simps)

lemma demo_assemble:
  "\<exists>ep g'. assemble_episode (demo_ext k True) h st
     (demo_placed \<lparr> self_sim := w \<rparr>) = Inr (ep, g')"
  by (simp add: demo_placed_def demo_generator_def demo_defs demo_ext_sel)

lemma demo_attempt_rejected:
  assumes "Suc t \<le> k"
  shows "generate_single_episode (demo_ext k True)
           (demo_placed \<lparr> self_sim := DemoWorld c ''v3_sc0_staging_00'' d t \<rparr>) =
         Some (Inr (None,
           demo_placed \<lparr> self_sim := DemoWorld 5 ''v3_sc0_staging_00'' (3 / 2) (Suc t) \<rparr>))"
  using assms
  by (simp add: generate_single_episode_def demo_resample demo_resettle)

lemma demo_attempt_accepted:
  assumes "\<not> Suc t \<le> k"
  shows "\<exists>ep g'. generate_single_episode (demo_ext k True)
           (demo_placed \<lparr> self_sim := DemoWorld c ''v3_sc0_staging_00'' d t \<rparr>) =
         Some (Inr (Some ep, g'))"
proof -
  obtain ep g' where "assemble_episode (demo_ext k True) ''v3_sc0_staging_00''
      [(''fridge_:0000'', [(1, 3 / 2), (2, 3 / 2)])]
      (demo_placed \<lparr> self_sim := DemoWorld 5 ''v3_sc0_staging_00'' 0 (Suc t) \<rparr>) = Inr (ep, g')"
    using demo_assemble by blast
  with assms show ?thesis
    by (simp add: generate_single_episode_def demo_resample demo_resettle)
qed

lemma demo_retry_loop:
  "t + j = k \<Longrightarrow>
     \<exists>ep g'. generate_episodes_loop (demo_ext k True) 1 [] failed
               (demo_placed \<lparr> self_sim := DemoWorld c ''v3_sc0_staging_00'' d t \<rparr>) =
             Some (Inr ([Some ep], failed + int j, g'))"
proof (induction j arbitrary: t failed c d)
  case 0
  then have "\<not> Suc t \<le> k" by simp
  from demo_attempt_accepted [OF this, of c d] obtain ep g' where
    "generate_single_episode (demo_ext k True)
       (demo_placed \<lparr> self_sim := DemoWorld c ''v3_sc0_staging_00'' d t \<rparr>) =
     Some (Inr (Some ep, g'))" by blast
  then have "generate_episodes_loop (demo_ext k True) 1 [] failed
               (demo_placed \<lparr> self_sim := DemoWorld c ''v3_sc0_staging_00'' d t \<rparr>) =
             generate_episodes_loop (demo_ext k True) 1 [Some ep] failed g'"
    by (subst generate_episodes_loop.simps) simp
  also have "\<dots> = Some (Inr ([Some ep], failed, g'))"
    by (subst generate_episodes_loop.simps) simp
  finally show ?case by simp
next
  case (Suc j)
  then have le: "Suc t \<le> k" and rest: "Suc t + j = k" by simp_all
  have "generate_episodes_loop (demo_ext k True) 1 [] failed
               (demo_placed \<lparr> self_sim := DemoWorld c ''v3_sc0_staging_00'' d t \<rparr>) =
        generate_episodes_loop (demo_ext k True) 1 [] (failed + 1)
               (demo_placed \<lparr> self_sim := DemoWorld 5 ''v3_sc0_staging_00'' (3 / 2) (Suc t) \<rparr>)"
    by (subst generate_episodes_loop.simps) (simp add: demo_attempt_rejected [OF le])
  moreover from Suc.IH [OF rest, of "failed + 1" 5 "3 / 2"] obtain ep g' where
    "generate_episodes_loop (demo_ext k True) 1 [] (failed + 1)
       (demo_placed \<lparr> self_sim := DemoWorld 5 ''v3_sc0_staging_00'' (3 / 2) (Suc t) \<rparr>) =
     Some (Inr ([Some ep], failed + 1 + int j, g'))" by blast
  moreover have "failed + 1 + int j = failed + int (Suc j)" by simp
  ultimately show ?case by (intro exI [of _ ep] exI [of _ g']) (simp only:)
qed

lemma retry_loop_unbounded:
  "\<exists>ep g'. generate_episodes_loop (demo_ext k True) 1 [] 0 demo_generator =
            Some (Inr ([Some ep], int k, g'))"
proof (cases k)
  case 0
  obtain ep g' where "assemble_episode (demo_ext k True) ''v3_sc0_staging_00''
      [(''fridge_:0000'', [(1, 3 / 2), (2, 3 / 2)])]
      (demo_placed \<lparr> self_sim := DemoWorld 5 ''v3_sc0_staging_00'' 0 1 \<rparr>) = Inr (ep, g')"
    using demo_assemble by blast
  with 0 have "generate_single_episode (demo_ext k True) demo_generator =
      Some (Inr (Some ep, g'))"
    by (simp add: generate_single_episode_def demo_sample_episode_state demo_settle_sim)
  then have "generate_episodes_loop (demo_ext k True) 1 [] 0 demo_generator =
             generate_episodes_loop (demo_ext k True) 1 [Some ep] 0 g'"
    by (subst generate_episodes_loop.simps) simp
  also have "\<dots> = Some (Inr ([Some ep], 0, g'))"
    by (subst generate_episodes_loop.simps) simp
  finally show ?thesis using 0 by simp
next
  case (Suc j)
  then have "generate_single_episode (demo_ext k True) demo_generator =
      Some (Inr (None,
        demo_placed \<lparr> self_sim := DemoWorld 5 ''v3_sc0_staging_00'' (3 / 2) 1 \<rparr>))"
    by (simp add: generate_single_episode_def demo_sample_episode_state demo_settle_sim)
  then have "generate_episodes_loop (demo_ext k True) 1 [] 0 demo_generator =
      generate_episodes_loop (demo_ext k True) 1 [] 1
        (demo_placed \<lparr> self_sim := DemoWorld 5 ''v3_sc0_staging_00'' (3 / 2) 1 \<rparr>)"
    by (subst generate_episodes_loop.simps) simp
  moreover from Suc have "1 + j = k" by simp
  from demo_retry_loop [OF this, of 1 5 "3 / 2"] obtain ep g' where
    "generate_episodes_loop (demo_ext k True) 1 [] 1
        (demo_placed \<lparr> self_sim := DemoWorld 5 ''v3_sc0_staging_00'' (3 / 2) 1 \<rparr>) =
     Some (Inr ([Some ep], 1 + int j, g'))" by blast
  moreover have "1 + int j = int k" using Suc by simp
  ultimately show ?thesis by (intro exI [of _ ep] exI [of _ g']) (simp only:)
qed

lemma returned_list_is_full:
  assumes "generate_episodes ext g num_episodes = Some (Inr (eps, g'))"
  shows "(0 \<le> num_episodes \<longrightarrow> int (length eps) = num_episodes)
       \<and> (num_episodes < 0 \<longrightarrow> eps = [])
       \<and> (\<forall>e\<in>set eps. e \<noteq> None)"
proof -
  from assms obtain failed where
    loop: "generate_episodes_loop ext num_episodes [] 0 g = Some (Inr (eps, failed, g'))"
    by (auto simp: generate_episodes_def split: option.splits sum.splits)
  from generate_episodes_loop_result [OF loop] obtain new where
    new: "eps = [] @ new" and
    ids: "\<forall>i<length new. \<exists>ep. new ! i = Some ep
            \<and> episode_id ep = str (self_num_ep_generated g + int i)
            \<and> start_position ep = [0, 0, 0] \<and> start_rotation ep = [0, 0, 0, 1]" and
    len: "if int (length ([] :: episode option list)) < num_episodes
          then int (length eps) = num_episodes else new = []"
    by blast
  have "e \<noteq> None" if "e \<in> set eps" for e
  proof -
    from that new obtain i where "i < length new" "new ! i = e"
      by (auto simp: in_set_conv_nth)
    with ids show ?thesis by auto
  qed
  moreover have "0 \<le> num_episodes \<longrightarrow> int (length eps) = num_episodes"
    using len new by (cases "0 < num_episodes") auto
  moreover have "num_episodes < 0 \<longrightarrow> eps = []"
    using len new by auto
  ultimately show ?thesis by blast
qed

text \<open>
  Claim C1. Whenever \<^verbatim>\<open>generate_episodes(num_episodes)\<close> returns a list, the list has
  exactly \<open>num_episodes\<close> entries for a count that is not negative (for a negative count
  the loop body never runs and the list is empty), and no entry is \<^verbatim>\<open>None\<close>. An
  iteration of the loop appends the accepted episode, or adds one to the count of failed
  episodes and leaves the list; the loop ends only when the list is full. No number of
  attempts ends it earlier: for every \<open>k\<close> there is a run with \<open>k\<close> failed attempts
  that still returns the requested episode.
\<close>

theorem generate_episodes_count:
  "(generate_episodes ext g num_episodes = Some (Inr (eps, g')) \<longrightarrow>
      (0 \<le> num_episodes \<longrightarrow> int (length eps) = num_episodes)
      \<and> (num_episodes < 0 \<longrightarrow> eps = [])
      \<and> (\<forall>e\<in>set eps. e \<noteq> None))
   \<and> (int (length generated) < num_episodes \<and>
      generate_single_episode ext g = Some (Inr (Some ep, g1)) \<longrightarrow>
        generate_episodes_loop ext num_episodes generated failed g =
        generate_episodes_loop ext num_episodes (generated @ [Some ep]) failed g1)
   \<and> (int (length generated) < num_episodes \<and>
      generate_single_episode ext g = Some (Inr (None, g1)) \<longrightarrow>
        generate_episodes_loop ext num_episodes generated failed g =
        generate_episodes_loop ext num_episodes generated (failed + 1) g1)
   \<and> (\<not> int (length generated) < num_episodes \<longrightarrow>
        generate_episodes_loop ext num_episodes generated failed g =
        Some (Inr (generated, failed, g)))
   \<and> (\<exists>ep0 g2. generate_episodes_loop (demo_ext k True) 1 [] 0 demo_generator =
                  Some (Inr ([Some ep0], int k, g2)))"
proof (intro conjI impI)
  assume run: "generate_episodes ext g num_episodes = Some (Inr (eps, g'))"
  from returned_list_is_full [OF run]
  show "int (length eps) = num_episodes" if "0 \<le> num_episodes"
    using that by blast
  from returned_list_is_full [OF run]
  show "eps = []" if "num_episodes < 0"
    using that by blast
  from returned_list_is_full [OF run]
  show "\<forall>e\<in>set eps. e \<noteq> None" by blast
next
  assume "int (length generated) < num_episodes \<and>
      generate_single_episode ext g = Some (Inr (Some ep, g1))"
  then show "generate_episodes_loop ext num_episodes generated failed g =
        generate_episodes_loop ext num_episodes (generated @ [Some ep]) failed g1"
    by (subst generate_episodes_loop.simps) simp
next
  assume "int (length generated) < num_episodes \<and>
      generate_single_episode ext g = Some (Inr (None, g1))"
  then show "generate_episodes_loop ext num_episodes generated failed g =
        generate_episodes_loop ext num_episodes generated (failed + 1) g1"
    by (subst generate_episodes_loop.simps) simp
next
  assume "\<not> int (length generated) < num_episodes"
  then show "generate_episodes_loop ext num_episodes generated failed g =
        Some (Inr (generated, failed, g))"
    by (subst generate_episodes_loop.simps) simp
next
  show "\<exists>ep0 g2. generate_episodes_loop (demo_ext k True) 1 [] 0 demo_generator =
                  Some (Inr ([Some ep0], int k, g2))"
    by (rule retry_loop_unbounded)
qed

theorem generate_episodes_count_witness:
  "(case generate_episodes (demo_ext 1 True) demo_generator 2 of
      Some (Inr (eps, g')) \<Rightarrow> length eps = 2 \<and> None \<notin> set eps
    | _ \<Rightarrow> False)
   \<and> generate_episodes_loop (demo_ext 1 True) 2 [] 0 demo_generator =
     generate_episodes_loop (demo_ext 1 True) 2 [] 1
       (demo_placed \<lparr> self_sim := DemoWorld 5 ''v3_sc0_staging_00'' (3 / 2) 1 \<rparr>)"
proof -
  from demo_run obtain e0 e1 g' where
    "generate_episodes_loop (demo_ext 1 True) 2 [] 0 demo_generator =
       Some (Inr ([Some e0, Some e1], 1, g'))" by blast
  then have run: "generate_episodes (demo_ext 1 True) demo_generator 2 =
       Some (Inr ([Some e0, Some e1], g'))"
    by (simp add: generate_episodes_def)
  have rejected: "generate_single_episode (demo_ext 1 True) demo_generator =
      Some (Inr (None,
        demo_placed \<lparr> self_sim := DemoWorld 5 ''v3_sc0_staging_00'' (3 / 2) 1 \<rparr>))"
    by (simp add: generate_single_episode_def demo_sample_episode_state demo_settle_sim)
  note inst = generate_episodes_count
    [of "demo_ext 1 True" demo_generator 2 "[Some e0, Some e1]" g' "[]" _
        "demo_placed \<lparr> self_sim := DemoWorld 5 ''v3_sc0_staging_00'' (3 / 2) 1 \<rparr>" 0]
  from inst run have "int (length [Some e0, Some e1]) = 2"
    "\<forall>e\<in>set [Some e0, Some e1]. e \<noteq> None" by simp_all
  moreover from inst rejected have
    "generate_episodes_loop (demo_ext 1 True) 2 [] 0 demo_generator =
     generate_episodes_loop (demo_ext 1 True) 2 [] (0 + 1)
       (demo_placed \<lparr> self_sim := DemoWorld 5 ''v3_sc0_staging_00'' (3 / 2) 1 \<rparr>)"
    by simp
  ultimately show ?thesis using run by simp
qed

text \<open>
  Claim C7. The constructor sets the counter to 0. An accepted episode takes the current
  counter as its \<^verbatim>\<open>episode_id\<close> (as a decimal string) and advances it by one; a
  rejected attempt leaves it. Hence the episodes a call of \<^verbatim>\<open>generate_episodes\<close>
  returns carry, in order, the ids counting up from the counter at the call, and the
  counter afterwards has advanced by the number of episodes returned.
\<close>

theorem episode_ids_count_accepted_episodes:
  "(generate_episodes ext g num_episodes = Some (Inr (eps, g')) \<longrightarrow>
      (\<forall>i<length eps. \<exists>ep. eps ! i = Some ep
          \<and> episode_id ep = str (self_num_ep_generated g + int i))
      \<and> self_num_ep_generated g' = self_num_ep_generated g + int (length eps))
   \<and> (generator_init ext cfg debug_visualization = Inr g \<longrightarrow> self_num_ep_generated g = 0)
   \<and> (generate_single_episode ext g = Some (Inr (Some ep, g1)) \<longrightarrow>
        episode_id ep = str (self_num_ep_generated g)
        \<and> self_num_ep_generated g1 = self_num_ep_generated g + 1)
   \<and> (generate_single_episode ext g = Some (Inr (None, g1)) \<longrightarrow>
        self_num_ep_generated g1 = self_num_ep_generated g)"
proof (intro conjI impI)
  assume run: "generate_episodes ext g num_episodes = Some (Inr (eps, g'))"
  then obtain failed where
    loop: "generate_episodes_loop ext num_episodes [] 0 g = Some (Inr (eps, failed, g'))"
    by (auto simp: generate_episodes_def split: option.splits sum.splits)
  from generate_episodes_loop_result [OF loop]
  show "\<forall>i<length eps. \<exists>ep. eps ! i = Some ep
          \<and> episode_id ep = str (self_num_ep_generated g + int i)"
    and "self_num_ep_generated g' = self_num_ep_generated g + int (length eps)"
    by auto
next
  assume "generator_init ext cfg debug_visualization = Inr g"
  then show "self_num_ep_generated g = 0"
    by (auto simp: generator_init_def Let_def split: sum.splits)
next
  assume a: "generate_single_episode ext g = Some (Inr (Some ep, g1))"
  show "episode_id ep = str (self_num_ep_generated g)"
    and "self_num_ep_generated g1 = self_num_ep_generated g + 1"
    using accepted_episode [OF a] by simp_all
next
  assume "generate_single_episode ext g = Some (Inr (None, g1))"
  then show "self_num_ep_generated g1 = self_num_ep_generated g"
    by (rule rejected_episode)
qed

theorem episode_ids_count_accepted_episodes_witness:
  "(case generate_episodes (demo_ext 1 True) demo_generator 2 of
      Some (Inr (eps, g')) \<Rightarrow>
        map (map_option episode_id) eps = [Some ''0'', Some ''1'']
        \<and> self_num_ep_generated g' = 2
    | _ \<Rightarrow> False)
   \<and> generator_init (demo_ext 1 True) demo_cfg False = Inr demo_generator
   \<and> self_num_ep_generated demo_generator = 0"
proof -
  from demo_run obtain e0 e1 g' where
    loop: "generate_episodes_loop (demo_ext 1 True) 2 [] 0 demo_generator =
       Some (Inr ([Some e0, Some e1], 1, g'))" by blast
  then have run: "generate_episodes (demo_ext 1 True) demo_generator 2 =
       Some (Inr ([Some e0, Some e1], g'))"
    by (simp add: generate_episodes_def)
  have init: "generator_init (demo_ext 1 True) demo_cfg False = Inr demo_generator"
    using demo_init [of 1 True False] by (simp add: demo_generator_def demo_defs demo_ext_sel)
  note inst = episode_ids_count_accepted_episodes
    [of "demo_ext 1 True" demo_generator 2 "[Some e0, Some e1]" g' demo_cfg False]
  from inst run have ids: "\<forall>i<2. \<exists>ep. [Some e0, Some e1] ! i = Some ep
      \<and> episode_id ep = str (self_num_ep_generated demo_generator + int i)"
    and cnt: "self_num_ep_generated g' = self_num_ep_generated demo_generator + 2"
    by simp_all
  from inst init have zero: "self_num_ep_generated demo_generator = 0" by blast
  from ids [rule_format, of 0] ids [rule_format, of 1] zero
  have "episode_id e0 = ''0''" "episode_id e1 = ''1''"
    by (simp_all add: str_def digit_char_def)
  with cnt zero run init show ?thesis by simp
qed

text \<open>
  Claim C9. Every episode record \<^verbatim>\<open>generate_single_episode\<close> returns has the start
  position \<open>[0, 0, 0]\<close> and the start rotation \<open>[0, 0, 0, 1]\<close>, whatever the
  samplers and the simulator did.
\<close>

theorem start_pose_is_fixed:
  assumes "generate_single_episode ext g = Some (Inr (Some ep, g'))"
  shows "start_position ep = [0, 0, 0] \<and> start_rotation ep = [0, 0, 0, 1]"
  using accepted_episode(3,4) [OF assms] by simp

theorem start_pose_is_fixed_witness:
  "(case generate_single_episode (demo_ext 0 True) demo_generator of
      Some (Inr (Some ep, g')) \<Rightarrow>
        start_position ep = [0, 0, 0] \<and> start_rotation ep = [0, 0, 0, 1] \<and> episode_id ep = ''0''
    | _ \<Rightarrow> False)"
proof -
  from demo_first_episode obtain ep g1 where
    run: "generate_single_episode (demo_ext 0 True) demo_generator = Some (Inr (Some ep, g1))"
    and "episode_id ep = ''0''" by blast
  then show ?thesis
    using start_pose_is_fixed [OF run] by simp
qed

text \<open>
  Claim C3. When \<^verbatim>\<open>settle_sim\<close> returns false for the state sampled in an attempt,
  \<^verbatim>\<open>generate_single_episode\<close> returns \<^verbatim>\<open>None\<close> (it does not raise), with the
  generator as the settle check left it: no target sampler was built or run, no target
  was stored, the episode counter is unchanged. The loop of \<^verbatim>\<open>generate_episodes\<close>
  adds one to its count of failed episodes and goes on with an unchanged list: when the
  next attempt is accepted and fills the list, the loop returns the list with that
  episode appended and the count of failed episodes one higher, and
  \<^verbatim>\<open>generate_episodes(1)\<close> returns the episode of the retry. In the small world with
  \<open>k + 1\<close> unstable attempts, the settle check of the first attempt returns false and
  the call returns its episode after \<open>k + 1\<close> failed attempts.
\<close>

theorem unstable_attempt_is_discarded:
  assumes "sample_episode_state ext g0 = Inr (ep_scene_handle, states, g3)"
      and "settle_sim ext g3 5 True = Some (Inr (False, g4))"
  shows "generate_single_episode ext g0 = Some (Inr (None, g4))
       \<and> (int (length generated) < num_episodes \<longrightarrow>
            generate_episodes_loop ext num_episodes generated failed g0 =
            generate_episodes_loop ext num_episodes generated (failed + 1) g4)
       \<and> self_num_ep_generated g4 = self_num_ep_generated g0
       \<and> self_sampled_targets g4 = []
       \<and> self_target_samplers g4 = self_target_samplers g0
       \<and> g4 = g3 \<lparr> self_sim := self_sim g4 \<rparr>
       \<and> (int (length generated) + 1 = num_episodes \<and>
          generate_single_episode ext g4 = Some (Inr (Some ep, g5)) \<longrightarrow>
            generate_episodes_loop ext num_episodes generated failed g0 =
              Some (Inr (generated @ [Some ep], failed + 1, g5)))
       \<and> (generate_single_episode ext g4 = Some (Inr (Some ep, g5)) \<longrightarrow>
            generate_episodes ext g0 1 = Some (Inr ([Some ep], g5)))
       \<and> (\<exists>ep1 g6.
            settle_sim (demo_ext (Suc k) True) demo_placed 5 True =
              Some (Inr (False,
                demo_placed \<lparr> self_sim := DemoWorld 5 ''v3_sc0_staging_00'' (3 / 2) 1 \<rparr>))
            \<and> generate_episodes_loop (demo_ext (Suc k) True) 1 [] 0 demo_generator =
                Some (Inr ([Some ep1], int (Suc k), g6)))"
proof -
  have single: "generate_single_episode ext g0 = Some (Inr (None, g4))"
    using assms by (simp add: generate_single_episode_def)
  have step: "generate_episodes_loop ext n gen f g0 =
      generate_episodes_loop ext n gen (f + 1) g4"
    if "int (length gen) < n" for n gen f
    using that single
    by (subst generate_episodes_loop.simps) simp
  have retry: "generate_episodes_loop ext n gen f g0 = Some (Inr (gen @ [Some ep], f + 1, g5))"
    if n: "int (length gen) + 1 = n"
    and accepted: "generate_single_episode ext g4 = Some (Inr (Some ep, g5))" for n gen f
  proof -
    from n have lt: "int (length gen) < n" by simp
    have "generate_episodes_loop ext n gen f g0 = generate_episodes_loop ext n gen (f + 1) g4"
      using lt by (rule step)
    also have "\<dots> = generate_episodes_loop ext n (gen @ [Some ep]) (f + 1) g5"
      using lt accepted by (subst generate_episodes_loop.simps) simp
    also have "\<dots> = Some (Inr (gen @ [Some ep], f + 1, g5))"
      using n by (subst generate_episodes_loop.simps) simp
    finally show ?thesis .
  qed
  have call: "generate_episodes ext g0 1 = Some (Inr ([Some ep], g5))"
    if "generate_single_episode ext g4 = Some (Inr (Some ep, g5))"
    using retry [of "[]" 1 0, OF _ that] by (simp add: generate_episodes_def)
  have demo: "\<exists>ep1 g6.
      settle_sim (demo_ext (Suc k) True) demo_placed 5 True =
        Some (Inr (False,
          demo_placed \<lparr> self_sim := DemoWorld 5 ''v3_sc0_staging_00'' (3 / 2) 1 \<rparr>))
      \<and> generate_episodes_loop (demo_ext (Suc k) True) 1 [] 0 demo_generator =
          Some (Inr ([Some ep1], int (Suc k), g6))"
    using retry_loop_unbounded [of "Suc k"] demo_settle_sim [of "Suc k"] by simp
  show ?thesis
    using single step [of generated num_episodes failed]
      retry [of generated num_episodes failed] call demo
      sample_episode_state_keeps [OF assms(1)] settle_sim_keeps [OF assms(2)]
    by simp
qed

theorem unstable_attempt_is_discarded_witness:
  "generate_single_episode (demo_ext 1 True) demo_generator =
     Some (Inr (None, demo_placed \<lparr> self_sim := DemoWorld 5 ''v3_sc0_staging_00'' (3 / 2) 1 \<rparr>))
   \<and> generate_episodes_loop (demo_ext 1 True) 2 [] 0 demo_generator =
     generate_episodes_loop (demo_ext 1 True) 2 [] 1
       (demo_placed \<lparr> self_sim := DemoWorld 5 ''v3_sc0_staging_00'' (3 / 2) 1 \<rparr>)
   \<and> (case generate_episodes_loop (demo_ext 1 True) 1 [] 0 demo_generator of
        Some (Inr (eps, failed, g')) \<Rightarrow> length eps = 1 \<and> None \<notin> set eps \<and> failed = 1
      | _ \<Rightarrow> False)
   \<and> (case generate_episodes (demo_ext 1 True) demo_generator 1 of
        Some (Inr (eps, g')) \<Rightarrow> length eps = 1 \<and> None \<notin> set eps
      | _ \<Rightarrow> False)"
proof -
  have "\<not> Suc 1 \<le> (1 :: nat)" by simp
  from demo_attempt_accepted [OF this, of 5 "3 / 2"] obtain ep g5 where
    accepted: "generate_single_episode (demo_ext 1 True)
        (demo_placed \<lparr> self_sim := DemoWorld 5 ''v3_sc0_staging_00'' (3 / 2) 1 \<rparr>) =
      Some (Inr (Some ep, g5))" by blast
  have rejected: "settle_sim (demo_ext 1 True) demo_placed 5 True =
      Some (Inr (False,
        demo_placed \<lparr> self_sim := DemoWorld 5 ''v3_sc0_staging_00'' (3 / 2) 1 \<rparr>))"
    using demo_settle_sim [of 1] by simp
  note inst = unstable_attempt_is_discarded
    [OF demo_sample_episode_state [of 1] rejected, of _ _ _ ep g5]
  have a: "generate_single_episode (demo_ext 1 True) demo_generator =
      Some (Inr (None,
        demo_placed \<lparr> self_sim := DemoWorld 5 ''v3_sc0_staging_00'' (3 / 2) 1 \<rparr>))"
    using inst [of "[]" 2 0, THEN conjunct1] .
  have b: "generate_episodes_loop (demo_ext 1 True) 2 [] 0 demo_generator =
      generate_episodes_loop (demo_ext 1 True) 2 [] 1
        (demo_placed \<lparr> self_sim := DemoWorld 5 ''v3_sc0_staging_00'' (3 / 2) 1 \<rparr>)"
    using inst [of "[]" 2 0, THEN conjunct2, THEN conjunct1] by simp
  have c: "generate_episodes_loop (demo_ext 1 True) 1 [] 0 demo_generator =
      Some (Inr ([Some ep], 1, g5))"
    using inst [of "[]" 1 0, THEN conjunct2, THEN conjunct2, THEN conjunct2, THEN conjunct2,
                THEN conjunct2, THEN conjunct2, THEN conjunct1] accepted
    by simp
  have d: "generate_episodes (demo_ext 1 True) demo_generator 1 = Some (Inr ([Some ep], g5))"
    using inst [of "[]" 1 0, THEN conjunct2, THEN conjunct2, THEN conjunct2, THEN conjunct2,
                THEN conjunct2, THEN conjunct2, THEN conjunct2, THEN conjunct1] accepted
    by simp
  from a b c d show ?thesis by simp
qed

section \<open>A failing articulated-object state sampler\<close>

lemma sample_ao_states_append:
  "sample_ao_states ext (pre @ rest) st w =
     (case sample_ao_states ext pre st w of
        Inl e \<Rightarrow> Inl e
      | Inr (st1, w1) \<Rightarrow> sample_ao_states ext rest st1 w1)"
  by (induction pre arbitrary: st w) (auto split: prod.splits option.splits)

lemma generate_single_episode_raises:
  assumes "sample_episode_state ext g0 = Inl e"
  shows "generate_single_episode ext g0 = Some (Inl e)"
  using assms by (simp add: generate_single_episode_def)

lemma generate_episodes_loop_raises:
  assumes "generate_single_episode ext g = Some (Inl e)"
      and "int (length generated) < num_episodes"
  shows "generate_episodes_loop ext num_episodes generated failed g = Some (Inl e)"
  using assms by (subst generate_episodes_loop.simps) simp

text \<open>
  Claim C4, as amended. When an articulated-object state sampler returns \<^verbatim>\<open>None\<close>
  (the samplers before it in the iteration having returned states), the assertion of
  \<^verbatim>\<open>generate_single_episode\<close> fails. The loop of \<^verbatim>\<open>generate_episodes\<close> has no
  handler, so the \<^verbatim>\<open>AssertionError\<close> leaves \<^verbatim>\<open>generate_episodes\<close>: the attempt
  is not retried and no episode list is returned.
\<close>

theorem ao_sampler_failure_leaves_generate_episodes:
  assumes "generate_scene ext
             ((reset_samplers ext g0) \<lparr> self_sampled_objects := [], self_sampled_targets := [] \<rparr>) =
           Inr (ep_scene_handle, g1)"
      and "self_ao_state_samplers g1 = earlier @ (sampler_name, sampler) # later"
      and "sample_ao_states ext earlier [] (self_sim g1) = Inr (states, w1)"
      and "ao_sampler_sample ext sampler_name sampler w1 = (None, w2)"
  shows "generate_single_episode ext g0 =
           Some (Inl (AssertionError (''AO sampler '' @ apos @ sampler_name @ apos @ '' failed'')))
       \<and> (int (length generated) < num_episodes \<longrightarrow>
            generate_episodes_loop ext num_episodes generated failed g0 =
              Some (Inl (AssertionError
                (''AO sampler '' @ apos @ sampler_name @ apos @ '' failed''))))
       \<and> (0 < num_episodes \<longrightarrow>
            generate_episodes ext g0 num_episodes =
              Some (Inl (AssertionError
                (''AO sampler '' @ apos @ sampler_name @ apos @ '' failed''))))"
proof -
  let ?e = "AssertionError (''AO sampler '' @ apos @ sampler_name @ apos @ '' failed'')"
  have "sample_ao_states ext (self_ao_state_samplers g1) [] (self_sim g1) = Inl ?e"
    using assms(2-4) by (simp add: sample_ao_states_append)
  then have "sample_episode_state ext g0 = Inl ?e"
    using assms(1) by (simp add: sample_episode_state_def)
  then have single: "generate_single_episode ext g0 = Some (Inl ?e)"
    by (rule generate_single_episode_raises)
  have loop: "generate_episodes_loop ext n gen f g0 = Some (Inl ?e)"
    if "int (length gen) < n" for n gen f
    using single that by (rule generate_episodes_loop_raises)
  have "generate_episodes ext g0 num_episodes = Some (Inl ?e)" if "0 < num_episodes"
    using loop [of "[]" num_episodes 0] that by (simp add: generate_episodes_def)
  with single loop show ?thesis by blast
qed

lemma demo_generate_scene:
  "generate_scene (demo_ext k a)
     ((reset_samplers (demo_ext k a) demo_generator)
        \<lparr> self_sampled_objects := [], self_sampled_targets := [] \<rparr>) =
   Inr (''v3_sc0_staging_00'',
        demo_generator \<lparr> self_sim := DemoWorld 0 ''v3_sc0_staging_00'' 0 1 \<rparr>)"
  by (simp add: demo_generator_def demo_defs demo_ext_sel)

lemma demo_ao_state_samplers:
  "self_ao_state_samplers demo_generator =
     [] @ (''open_fridge_doors'',
           CompositeArticulatedObjectStateSampler
             [(''fridge'', [(''top_door'', (3 / 2, 3 / 2)), (''bottom_door'', (3 / 2, 3 / 2))])])
        # []"
  by (simp add: demo_generator_def demo_defs demo_ext_sel)

theorem ao_sampler_failure_leaves_generate_episodes_witness:
  "generate_episodes (demo_ext 0 False) demo_generator 1 =
     Some (Inl (AssertionError (''AO sampler '' @ apos @ ''open_fridge_doors'' @ apos @ '' failed'')))"
proof -
  have s: "self_ao_state_samplers
             (demo_generator \<lparr> self_sim := DemoWorld 0 ''v3_sc0_staging_00'' 0 1 \<rparr>) =
           [] @ (''open_fridge_doors'',
                 CompositeArticulatedObjectStateSampler
                   [(''fridge'',
                     [(''top_door'', (3 / 2, 3 / 2)), (''bottom_door'', (3 / 2, 3 / 2))])])
              # []"
    using demo_ao_state_samplers by simp
  have e: "sample_ao_states (demo_ext 0 False) [] []
             (self_sim (demo_generator \<lparr> self_sim := DemoWorld 0 ''v3_sc0_staging_00'' 0 1 \<rparr>)) =
           Inr ([], DemoWorld 0 ''v3_sc0_staging_00'' 0 1)"
    by simp
  have f: "ao_sampler_sample (demo_ext 0 False) ''open_fridge_doors''
             (CompositeArticulatedObjectStateSampler
                [(''fridge'', [(''top_door'', (3 / 2, 3 / 2)), (''bottom_door'', (3 / 2, 3 / 2))])])
             (DemoWorld 0 ''v3_sc0_staging_00'' 0 1) =
           (None, DemoWorld 0 ''v3_sc0_staging_00'' 0 1)"
    by (simp add: demo_ext_sel)
  show ?thesis
    using ao_sampler_failure_leaves_generate_episodes
      [OF demo_generate_scene [of 0 False] s e f, of _ 1 _]
    by simp
qed

text \<open>
  The claim as stated fails in the small world when its sampler fails: the constructor
  succeeds, the sampler returns \<^verbatim>\<open>None\<close>, and \<^verbatim>\<open>generate_episodes(1)\<close> ends with
  the assertion error instead of an episode.
\<close>

theorem ao_sampler_failure_counterexample:
  "generator_init (demo_ext 0 False) demo_cfg False = Inr demo_generator
   \<and> fst (ao_sampler_sample (demo_ext 0 False) ''open_fridge_doors''
            (CompositeArticulatedObjectStateSampler
               [(''fridge'', [(''top_door'', (3 / 2, 3 / 2)), (''bottom_door'', (3 / 2, 3 / 2))])])
            (DemoWorld 0 ''v3_sc0_staging_00'' 0 1)) = None
   \<and> generate_episodes (demo_ext 0 False) demo_generator 1 =
       Some (Inl (AssertionError
         (''AO sampler '' @ apos @ ''open_fridge_doors'' @ apos @ '' failed'')))"
proof -
  have "generator_init (demo_ext 0 False) demo_cfg False = Inr demo_generator"
    using demo_init [of 0 False False] by (simp add: demo_generator_def demo_defs demo_ext_sel)
  moreover have "generate_single_episode (demo_ext 0 False) demo_generator =
      Some (Inl (AssertionError (''AO sampler '' @ apos @ ''open_fridge_doors'' @ apos @ '' failed'')))"
    by (simp add: demo_generator_def demo_defs demo_ext_sel)
  then have "generate_episodes (demo_ext 0 False) demo_generator 1 =
      Some (Inl (AssertionError (''AO sampler '' @ apos @ ''open_fridge_doors'' @ apos @ '' failed'')))"
    by (simp add: generate_episodes_def generate_episodes_loop_raises)
  ultimately show ?thesis by (simp add: demo_ext_sel)
qed

section \<open>Settling needs an object\<close>

lemma settle_sim_never_raises:
  assumes "self_ep_sampled_objects g \<noteq> []"
  shows "settle_sim ext g duration make_video \<noteq> Some (Inl e)"
proof (cases "settle_loop ext (self_render_debug_obs g) duration (settle_start ext g)")
  case None
  with assms show ?thesis by (simp add: settle_sim_def)
next
  case (Some w2)
  from settle_sim_returns(2) [OF assms Some] show ?thesis by simp
qed

text \<open>
  Claim C10. \<^verbatim>\<open>settle_sim\<close> on an empty list of episode-sampled objects fails its
  first assertion; it returns no verdict, so \<^verbatim>\<open>generate_single_episode\<close> raises the
  \<^verbatim>\<open>AssertionError\<close> instead of returning \<^verbatim>\<open>None\<close>, and the exception leaves
  the loop of \<^verbatim>\<open>generate_episodes\<close>. On a non-empty list the object count that
  divides the centroid and the unstable percentage is not zero, the percentage division
  does not raise, and \<^verbatim>\<open>settle_sim\<close> raises nothing.
\<close>

theorem settle_sim_needs_a_sampled_object:
  "(self_ep_sampled_objects g = [] \<longrightarrow>
      settle_sim ext g duration make_video = Some (Inl (AssertionError [])))
   \<and> (sample_episode_state ext g0 = Inr (ep_scene_handle, states, g) \<and>
      self_ep_sampled_objects g = [] \<longrightarrow>
        generate_single_episode ext g0 = Some (Inl (AssertionError []))
        \<and> (int (length generated) < num_episodes \<longrightarrow>
             generate_episodes_loop ext num_episodes generated failed g0 =
               Some (Inl (AssertionError []))))
   \<and> (self_ep_sampled_objects g \<noteq> [] \<longrightarrow>
        real (length (self_ep_sampled_objects g)) \<noteq> 0
        \<and> py_truediv x (real (length (self_ep_sampled_objects g))) =
            Inr (x / real (length (self_ep_sampled_objects g)))
        \<and> settle_sim ext g duration make_video \<noteq> Some (Inl e))"
proof (intro conjI impI)
  assume "self_ep_sampled_objects g = []"
  then show "settle_sim ext g duration make_video = Some (Inl (AssertionError []))"
    by (simp add: settle_sim_def)
next
  assume a: "sample_episode_state ext g0 = Inr (ep_scene_handle, states, g) \<and>
    self_ep_sampled_objects g = []"
  then show single: "generate_single_episode ext g0 = Some (Inl (AssertionError []))"
    by (simp add: generate_single_episode_def settle_sim_def)
  assume "int (length generated) < num_episodes"
  with single show "generate_episodes_loop ext num_episodes generated failed g0 =
      Some (Inl (AssertionError []))"
    by (rule generate_episodes_loop_raises)
next
  assume n: "self_ep_sampled_objects g \<noteq> []"
  then show "real (length (self_ep_sampled_objects g)) \<noteq> 0" by simp
  from n show "py_truediv x (real (length (self_ep_sampled_objects g))) =
      Inr (x / real (length (self_ep_sampled_objects g)))"
    by (simp add: py_truediv_def)
  from n show "settle_sim ext g duration make_video \<noteq> Some (Inl e)"
    by (rule settle_sim_never_raises)
qed

lemma demo_no_objects:
  "\<exists>g st. generator_init (demo_ext 0 True) no_objects_cfg False = Inr g
     \<and> sample_episode_state (demo_ext 0 True) g =
         Inr (''v3_sc0_staging_00'', st,
              g \<lparr> self_sim := DemoWorld 0 ''v3_sc0_staging_00'' 0 1 \<rparr>)
     \<and> self_ep_sampled_objects g = []"
  by (simp add: no_objects_cfg_def demo_defs demo_ext_sel)

theorem settle_sim_needs_a_sampled_object_witness:
  "(case generator_init (demo_ext 0 True) no_objects_cfg False of
      Inl e \<Rightarrow> False
    | Inr g \<Rightarrow>
        generate_single_episode (demo_ext 0 True) g = Some (Inl (AssertionError []))
        \<and> generate_episodes_loop (demo_ext 0 True) 1 [] 0 g = Some (Inl (AssertionError [])))
   \<and> self_ep_sampled_objects demo_placed \<noteq> []
   \<and> py_truediv 1 (real (length (self_ep_sampled_objects demo_placed))) = Inr (1 / 2)
   \<and> settle_sim (demo_ext 0 True) demo_placed 5 True \<noteq> Some (Inl ZeroDivisionError)"
proof -
  from demo_no_objects obtain g st where
    init: "generator_init (demo_ext 0 True) no_objects_cfg False = Inr g" and
    s: "sample_episode_state (demo_ext 0 True) g =
         Inr (''v3_sc0_staging_00'', st,
              g \<lparr> self_sim := DemoWorld 0 ''v3_sc0_staging_00'' 0 1 \<rparr>)" and
    e: "self_ep_sampled_objects g = []"
    by blast
  have e': "self_ep_sampled_objects (g \<lparr> self_sim := DemoWorld 0 ''v3_sc0_staging_00'' 0 1 \<rparr>) = []"
    using e by simp
  have n: "self_ep_sampled_objects demo_placed \<noteq> []"
    by (simp add: demo_placed_fields)
  note a = settle_sim_needs_a_sampled_object
    [of "g \<lparr> self_sim := DemoWorld 0 ''v3_sc0_staging_00'' 0 1 \<rparr>" "demo_ext 0 True" 5 True g
        "''v3_sc0_staging_00''" st "[]" 1 0]
  note b = settle_sim_needs_a_sampled_object
    [of demo_placed "demo_ext 0 True" 5 True _ _ _ _ _ _ 1 ZeroDivisionError]
  from a s e' have
    "generate_single_episode (demo_ext 0 True) g = Some (Inl (AssertionError []))"
    "generate_episodes_loop (demo_ext 0 True) 1 [] 0 g = Some (Inl (AssertionError []))"
    by simp_all
  moreover from b n have
    "py_truediv 1 (real (length (self_ep_sampled_objects demo_placed))) =
       Inr (1 / real (length (self_ep_sampled_objects demo_placed)))"
    "settle_sim (demo_ext 0 True) demo_placed 5 True \<noteq> Some (Inl ZeroDivisionError)"
    by blast+
  ultimately show ?thesis
    using init n by (simp add: demo_placed_fields)
qed

section \<open>Targets\<close>

lemma update_absent: "k \<notin> set (map fst al) \<Longrightarrow> AList.update k v al = al @ [(k, v)]"
  by (induction al) auto

lemma cache_targets_append:
  "cache_targets ext render (earlier @ later) (st, w) =
     (case cache_targets ext render earlier (st, w) of
        Inl e \<Rightarrow> Inl e
      | Inr (st1, w1) \<Rightarrow> cache_targets ext render later (st1, w1))"
  by (induction earlier arbitrary: st w) auto

lemma cache_targets_distinct:
  assumes "cache_targets ext render items (st, w) = Inr (st', w')"
      and "distinct (map fst st)"
  shows "distinct (map fst st')"
  using assms
proof (induction items arbitrary: st w)
  case Nil
  then show ?case by simp
next
  case (Cons a items)
  obtain instance_handle target_object where a: "a = (instance_handle, target_object)"
    by (cases a)
  from Cons.prems(1) a have absent: "instance_handle \<notin> set (map fst st)"
    by (auto split: if_splits)
  let ?st1 = "st @ [(instance_handle, transformation ext w (handle target_object))]"
  from Cons.prems(1) a absent obtain w1 where
    r: "cache_targets ext render items (?st1, w1) = Inr (st', w')"
    by (auto simp: update_absent split: if_splits)
  have "distinct (map fst ?st1)"
    using Cons.prems(2) absent by simp
  from Cons.IH [OF r this] show ?case .
qed

lemma sample_targets_distinct:
  assumes "sample_targets ext render samplers (st, w) = Inr (st', w')"
      and "distinct (map fst st)"
  shows "distinct (map fst st')"
  using assms
proof (induction samplers arbitrary: st w)
  case Nil
  then show ?case by simp
next
  case (Cons a samplers)
  obtain sampler_name sampler where a: "a = (sampler_name, sampler)" by (cases a)
  obtain items w1 where s: "target_sampler_sample ext sampler_name sampler True w = (items, w1)"
    by (cases "target_sampler_sample ext sampler_name sampler True w")
  from Cons.prems(1) a s obtain st1 w2 where
    c: "cache_targets ext render items (st, w1) = Inr (st1, w2)" and
    r: "sample_targets ext render samplers (st1, w2) = Inr (st', w')"
    by (auto split: sum.splits)
  from cache_targets_distinct [OF c Cons.prems(2)] Cons.IH [OF r] show ?case by simp
qed

text \<open>
  Claim C6. When the loop over a target sampler's result reaches an entry whose instance
  handle is already a key of the episode's sampled targets, the assertion fails with the
  duplicate-target message; nothing is stored for that entry, and target sampling ends
  with the error. Hence the targets of every returned episode record have pairwise
  different instance handles.
\<close>

theorem duplicate_target_is_rejected:
  "(cache_targets ext render earlier (sampled_targets, w) = Inr (st1, w1) \<and>
      instance_handle \<in> set (map fst st1) \<longrightarrow>
        cache_targets ext render (earlier @ (instance_handle, target_object) # later)
          (sampled_targets, w) =
        Inl (AssertionError
          (''Duplicate target for instance '' @ apos @ instance_handle @ apos @ ''.'')))
   \<and> (target_sampler_sample ext sampler_name sampler True w = (new_target_objects, w2) \<and>
      cache_targets ext render new_target_objects (sampled_targets, w2) = Inl e \<longrightarrow>
        sample_targets ext render ((sampler_name, sampler) # samplers) (sampled_targets, w) =
        Inl e)
   \<and> (generate_single_episode ext g = Some (Inr (Some ep, g')) \<longrightarrow>
        distinct (map fst (targets ep)))"
proof (intro conjI impI)
  assume "cache_targets ext render earlier (sampled_targets, w) = Inr (st1, w1) \<and>
      instance_handle \<in> set (map fst st1)"
  then show "cache_targets ext render (earlier @ (instance_handle, target_object) # later)
          (sampled_targets, w) =
        Inl (AssertionError
          (''Duplicate target for instance '' @ apos @ instance_handle @ apos @ ''.''))"
    by (simp add: cache_targets_append)
next
  assume "target_sampler_sample ext sampler_name sampler True w = (new_target_objects, w2) \<and>
      cache_targets ext render new_target_objects (sampled_targets, w2) = Inl e"
  then show "sample_targets ext render ((sampler_name, sampler) # samplers) (sampled_targets, w) =
        Inl e"
    by simp
next
  assume "generate_single_episode ext g = Some (Inr (Some ep, g'))"
  then obtain h st g3 g4 where
    s: "sample_episode_state ext g = Inr (h, st, g3)" and
    t: "settle_sim ext g3 5 True = Some (Inr (True, g4))" and
    a: "assemble_episode ext h st g4 = Inr (ep, g')"
    by (cases rule: generate_single_episode_cases) auto
  have empty: "self_sampled_targets g4 = []"
    using sample_episode_state_keeps(2) [OF s] settle_sim_keeps(3) [OF t] by simp
  from a obtain ts w5 where
    "sample_targets ext (self_render_debug_obs g4) ts ([], self_sim g4) = Inr (targets ep, w5)"
    by (auto simp: assemble_episode_def empty split: sum.splits prod.splits)
  from sample_targets_distinct [OF this] show "distinct (map fst (targets ep))" by simp
qed

lemma demo_duplicate_target:
  "\<exists>g. generator_init (demo_ext 0 True) duplicate_target_cfg False = Inr g
     \<and> generate_single_episode (demo_ext 0 True) g =
         Some (Inl (AssertionError
           (''Duplicate target for instance '' @ apos @ ''any_:0000'' @ apos @ ''.'')))"
  by (simp add: duplicate_target_cfg_def demo_defs
        demo_ext_sel demo_settle_150 demo_vec_length_axis del: demo_vec_length.simps)

theorem duplicate_target_is_rejected_witness:
  "cache_targets (demo_ext 0 True) False
     [(''any_:0000'',
       \<lparr> handle = ''any_:0000_target'', creation_attributes_handle = ''003_cracker_box'' \<rparr>)]
     ([(''any_:0000'', [[1, 0, 0, 0], [0, 1, 0, 1], [0, 0, 1, 0], [0, 0, 0, 1]])],
      DemoWorld 5 ''v3_sc0_staging_00'' 0 1) =
   Inl (AssertionError (''Duplicate target for instance '' @ apos @ ''any_:0000'' @ apos @ ''.''))
   \<and> (case generate_single_episode (demo_ext 0 True) demo_generator of
        Some (Inr (Some ep, g')) \<Rightarrow>
          distinct (map fst (targets ep)) \<and> map fst (targets ep) = [''any_:0000'']
      | _ \<Rightarrow> False)
   \<and> (case generator_init (demo_ext 0 True) duplicate_target_cfg False of
        Inl e \<Rightarrow> False
      | Inr g \<Rightarrow>
          generate_single_episode (demo_ext 0 True) g =
            Some (Inl (AssertionError
              (''Duplicate target for instance '' @ apos @ ''any_:0000'' @ apos @ ''.''))))"
proof -
  from demo_first_episode obtain ep g1 where
    run: "generate_single_episode (demo_ext 0 True) demo_generator = Some (Inr (Some ep, g1))"
    and keys: "map fst (targets ep) = [''any_:0000'']" by auto
  note inst = duplicate_target_is_rejected
    [of "demo_ext 0 True" False "[]"
        "[(''any_:0000'', [[1, 0, 0, 0], [0, 1, 0, 1], [0, 0, 1, 0], [0, 0, 0, 1]])]"
        "DemoWorld 5 ''v3_sc0_staging_00'' 0 1"
        "[(''any_:0000'', [[1, 0, 0, 0], [0, 1, 0, 1], [0, 0, 1, 0], [0, 0, 0, 1]])]"
        "DemoWorld 5 ''v3_sc0_staging_00'' 0 1"
        "''any_:0000''"
        "\<lparr> handle = ''any_:0000_target'', creation_attributes_handle = ''003_cracker_box'' \<rparr>"
        "[]" _ _ _ _ _ _ demo_generator ep g1]
  from inst have dup: "cache_targets (demo_ext 0 True) False
     [(''any_:0000'',
       \<lparr> handle = ''any_:0000_target'', creation_attributes_handle = ''003_cracker_box'' \<rparr>)]
     ([(''any_:0000'', [[1, 0, 0, 0], [0, 1, 0, 1], [0, 0, 1, 0], [0, 0, 0, 1]])],
      DemoWorld 5 ''v3_sc0_staging_00'' 0 1) =
   Inl (AssertionError (''Duplicate target for instance '' @ apos @ ''any_:0000'' @ apos @ ''.''))"
    by simp
  from inst run have "distinct (map fst (targets ep))" by blast
  with dup run keys demo_duplicate_target show ?thesis by auto
qed

section \<open>Merging articulated-object states\<close>

lemma merge_link_states_lookup:
  assumes "distinct (map fst link_states)"
  shows "map_of (merge_link_states link_states present) link_ix =
           (case map_of link_states link_ix of
              Some joint_state \<Rightarrow> Some joint_state
            | None \<Rightarrow> map_of present link_ix)"
  using assms
proof (induction link_states arbitrary: present)
  case Nil
  then show ?case by simp
next
  case (Cons a link_states)
  obtain k v where a: "a = (k, v)" by (cases a)
  from Cons.prems a have absent: "map_of link_states k = None" and d: "distinct (map fst link_states)"
    by (auto simp: map_of_eq_None_iff)
  show ?case
    using Cons.IH [OF d, of "AList.update k v present"] absent a
    by (auto simp: update_conv' split: option.splits)
qed

lemma merge_sampler_states_lookup:
  assumes "distinct (map fst sampler_states)"
      and "\<forall>(sampled_instance, link_states)\<in>set sampler_states. distinct (map fst link_states)"
  shows "ao_state_lookup (merge_sampler_states sampler_states states) instance link_ix =
           (case ao_state_lookup sampler_states instance link_ix of
              Some joint_state \<Rightarrow> Some joint_state
            | None \<Rightarrow> ao_state_lookup states instance link_ix)"
  using assms
proof (induction sampler_states arbitrary: states)
  case Nil
  then show ?case by (simp add: ao_state_lookup_def)
next
  case (Cons a sampler_states)
  obtain i ls where a: "a = (i, ls)" by (cases a)
  from Cons.prems a have
    absent: "map_of sampler_states i = None" and
    d: "distinct (map fst sampler_states)" and
    dl: "distinct (map fst ls)" and
    dr: "\<forall>(sampled_instance, link_states)\<in>set sampler_states. distinct (map fst link_states)"
    by (auto simp: map_of_eq_None_iff)
  let ?present = "case map_of states i of None \<Rightarrow> [] | Some present \<Rightarrow> present"
  let ?states1 = "AList.update i (merge_link_states ls ?present) states"
  have here: "ao_state_lookup ?states1 instance link_ix =
      (if instance = i then
         (case map_of ls link_ix of
            Some joint_state \<Rightarrow> Some joint_state
          | None \<Rightarrow> ao_state_lookup states i link_ix)
       else ao_state_lookup states instance link_ix)"
    by (auto simp: ao_state_lookup_def update_conv' merge_link_states_lookup [OF dl]
             split: option.splits)
  show ?case
    using Cons.IH [OF d dr, of ?states1] absent a here
    by (auto simp: ao_state_lookup_def split: option.splits)
qed

lemma sample_episode_state_ao_states:
  assumes "sample_episode_state ext g0 = Inr (h, st, g3)"
  shows "\<exists>g1 w. generate_scene ext
             ((reset_samplers ext g0) \<lparr> self_sampled_objects := [], self_sampled_targets := [] \<rparr>) =
           Inr (h, g1)
         \<and> sample_ao_states ext (self_ao_state_samplers g1) [] (self_sim g1) = Inr (st, w)"
  using assms
  by (auto simp: sample_episode_state_def split: sum.splits prod.splits)

text \<open>
  Claim C8. Merging one sampler's result (a dict of dicts, so with distinct keys) into
  the joint states collected so far gives, for every instance and link, the value of that
  result when it has one, and the value collected before otherwise: a later sampler
  overwrites an earlier one per link, and the other links of the instance are kept. The
  samplers are merged in iteration order, the last one over all the earlier ones, and the
  outcome is the \<^verbatim>\<open>ao_states\<close> of the episode record.
\<close>

theorem later_ao_sampler_overwrites_link:
  "(distinct (map fst sampler_states) \<and>
    (\<forall>(sampled_instance, link_states)\<in>set sampler_states. distinct (map fst link_states)) \<longrightarrow>
      ao_state_lookup (merge_sampler_states sampler_states states) instance link_ix =
        (case ao_state_lookup sampler_states instance link_ix of
           Some joint_state \<Rightarrow> Some joint_state
         | None \<Rightarrow> ao_state_lookup states instance link_ix))
   \<and> sample_ao_states ext (earlier @ [(sampler_name, sampler)]) [] w =
       (case sample_ao_states ext earlier [] w of
          Inl e \<Rightarrow> Inl e
        | Inr (states1, w1) \<Rightarrow>
            (case ao_sampler_sample ext sampler_name sampler w1 of
               (None, w2) \<Rightarrow>
                 Inl (AssertionError (''AO sampler '' @ apos @ sampler_name @ apos @ '' failed''))
             | (Some later_states, w2) \<Rightarrow>
                 Inr (merge_sampler_states later_states states1, w2)))
   \<and> (generate_single_episode ext g0 = Some (Inr (Some ep, g')) \<longrightarrow>
        (\<exists>h g1 w3.
           generate_scene ext
             ((reset_samplers ext g0) \<lparr> self_sampled_objects := [], self_sampled_targets := [] \<rparr>) =
           Inr (h, g1)
           \<and> sample_ao_states ext (self_ao_state_samplers g1) [] (self_sim g1) =
               Inr (ao_states ep, w3)))"
proof (intro conjI impI)
  assume "distinct (map fst sampler_states) \<and>
    (\<forall>(sampled_instance, link_states)\<in>set sampler_states. distinct (map fst link_states))"
  then show "ao_state_lookup (merge_sampler_states sampler_states states) instance link_ix =
        (case ao_state_lookup sampler_states instance link_ix of
           Some joint_state \<Rightarrow> Some joint_state
         | None \<Rightarrow> ao_state_lookup states instance link_ix)"
    using merge_sampler_states_lookup by blast
next
  show "sample_ao_states ext (earlier @ [(sampler_name, sampler)]) [] w =
       (case sample_ao_states ext earlier [] w of
          Inl e \<Rightarrow> Inl e
        | Inr (states1, w1) \<Rightarrow>
            (case ao_sampler_sample ext sampler_name sampler w1 of
               (None, w2) \<Rightarrow>
                 Inl (AssertionError (''AO sampler '' @ apos @ sampler_name @ apos @ '' failed''))
             | (Some later_states, w2) \<Rightarrow>
                 Inr (merge_sampler_states later_states states1, w2)))"
    by (simp add: sample_ao_states_append split: sum.splits prod.splits option.splits)
next
  assume "generate_single_episode ext g0 = Some (Inr (Some ep, g'))"
  then obtain h st g3 g4 where
    s: "sample_episode_state ext g0 = Inr (h, st, g3)" and
    a: "assemble_episode ext h st g4 = Inr (ep, g')"
    by (cases rule: generate_single_episode_cases) auto
  from assemble_episode_result(6) [OF a] sample_episode_state_ao_states [OF s]
  show "\<exists>h g1 w3.
           generate_scene ext
             ((reset_samplers ext g0) \<lparr> self_sampled_objects := [], self_sampled_targets := [] \<rparr>) =
           Inr (h, g1)
           \<and> sample_ao_states ext (self_ao_state_samplers g1) [] (self_sim g1) =
               Inr (ao_states ep, w3)"
    by auto
qed

theorem later_ao_sampler_overwrites_link_witness:
  "ao_state_lookup
     (merge_sampler_states [(''fridge_:0000'', [(1, 1 / 2)])]
        [(''fridge_:0000'', [(1, 3 / 2), (2, 3 / 2)])]) ''fridge_:0000'' 1 = Some (1 / 2)
   \<and> ao_state_lookup
     (merge_sampler_states [(''fridge_:0000'', [(1, 1 / 2)])]
        [(''fridge_:0000'', [(1, 3 / 2), (2, 3 / 2)])]) ''fridge_:0000'' 2 = Some (3 / 2)
   \<and> merge_sampler_states [(''fridge_:0000'', [(1, 1 / 2)])]
        [(''fridge_:0000'', [(1, 3 / 2), (2, 3 / 2)])] =
       [(''fridge_:0000'', [(1, 1 / 2), (2, 3 / 2)])]
   \<and> (case generate_single_episode (demo_ext 0 True) demo_generator of
        Some (Inr (Some ep, g')) \<Rightarrow> ao_states ep = [(''fridge_:0000'', [(1, 3 / 2), (2, 3 / 2)])]
      | _ \<Rightarrow> False)"
proof -
  from demo_first_episode obtain ep g1 where
    run: "generate_single_episode (demo_ext 0 True) demo_generator = Some (Inr (Some ep, g1))"
    and st: "ao_states ep = [(''fridge_:0000'', [(1, 3 / 2), (2, 3 / 2)])]" by auto
  have d: "distinct (map fst [(''fridge_:0000'', [(1 :: int, 1 / 2 :: real)])]) \<and>
    (\<forall>(sampled_instance, link_states)\<in>set [(''fridge_:0000'', [(1 :: int, 1 / 2 :: real)])].
        distinct (map fst link_states))"
    by simp
  note inst = later_ao_sampler_overwrites_link
    [of "[(''fridge_:0000'', [(1, 1 / 2)])]" "[(''fridge_:0000'', [(1, 3 / 2), (2, 3 / 2)])]"
        "''fridge_:0000''" _ "demo_ext 0 True" "[]" "''open_fridge_doors''" _ _
        demo_generator ep g1]
  from inst [of 1] d have one: "ao_state_lookup
     (merge_sampler_states [(''fridge_:0000'', [(1, 1 / 2)])]
        [(''fridge_:0000'', [(1, 3 / 2), (2, 3 / 2)])]) ''fridge_:0000'' 1 = Some (1 / 2)"
    by (simp add: ao_state_lookup_def)
  from inst [of 2] d have two: "ao_state_lookup
     (merge_sampler_states [(''fridge_:0000'', [(1, 1 / 2)])]
        [(''fridge_:0000'', [(1, 3 / 2), (2, 3 / 2)])]) ''fridge_:0000'' 2 = Some (3 / 2)"
    by (simp add: ao_state_lookup_def)
  have "merge_sampler_states [(''fridge_:0000'', [(1, 1 / 2)])]
        [(''fridge_:0000'', [(1, 3 / 2), (2, 3 / 2)])] =
       [(''fridge_:0000'', [(1, 1 / 2), (2, 3 / 2)])]"
    by simp
  with one two run st show ?thesis by simp
qed

section \<open>Configuration errors\<close>

lemma get_resource_sets_keys:
  "fst ` set (get_resource_sets entries sets) = fst ` set entries \<union> fst ` set sets"
proof (induction entries arbitrary: sets)
  case Nil
  then show ?case by simp
next
  case (Cons a entries)
  obtain k v where a: "a = (k, v)" by (cases a)
  have "fst ` set (get_resource_sets (a # entries) sets) =
      fst ` set entries \<union> fst ` set (AList.update k v sets)"
    using Cons.IH [of "AList.update k v sets"] by (simp add: a)
  also have "\<dots> = fst ` set (a # entries) \<union> fst ` set sets"
    using dom_update [of k v sets] by (auto simp: a)
  finally show ?case .
qed

lemma map_of_Some_key: "map_of al k = Some v \<Longrightarrow> k \<in> fst ` set al"
  by (metis map_of_eq_None_iff option.distinct(1))

lemma flatten_sets_raises_iff:
  "isl (flatten_sets sets names) \<longleftrightarrow> \<not> set names \<subseteq> fst ` set sets"
  by (induction names)
     (auto simp: map_of_eq_None_iff split: option.splits sum.splits dest: map_of_Some_key)

lemma get_obj_samplers_rejects:
  assumes "set (map fst entries) \<inter> set (map fst acc) \<noteq> {}
         \<or> \<not> distinct (map fst entries)
         \<or> (\<exists>(sampler_name, sampler_type, object_sets, receptacle_sets, others)\<in>set entries.
               sampler_type \<noteq> ''uniform''
               \<or> \<not> set object_sets \<subseteq> fst ` set obj_sets
               \<or> \<not> set receptacle_sets \<subseteq> fst ` set rec_sets)"
  shows "isl (get_obj_samplers obj_sets rec_sets entries acc)"
  using assms
proof (induction entries arbitrary: acc)
  case Nil
  then show ?case by simp
next
  case (Cons a entries)
  obtain n ty p0 p1 p2 p3 p4 where a: "a = (n, ty, p0, p1, p2, p3, p4)"
    by (cases a) auto
  show ?case
  proof (cases "n \<in> set (map fst acc) \<or> ty \<noteq> ''uniform''
      \<or> \<not> set p0 \<subseteq> fst ` set obj_sets \<or> \<not> set p1 \<subseteq> fst ` set rec_sets")
    case True
    then show ?thesis
      using flatten_sets_raises_iff [of obj_sets p0] flatten_sets_raises_iff [of rec_sets p1]
      by (auto simp: a split: sum.splits)
  next
    case False
    then obtain objects receptacles where
      f0: "flatten_sets obj_sets p0 = Inr objects" and
      f1: "flatten_sets rec_sets p1 = Inr receptacles"
      using flatten_sets_raises_iff [of obj_sets p0] flatten_sets_raises_iff [of rec_sets p1]
      by (cases "flatten_sets obj_sets p0"; cases "flatten_sets rec_sets p1") auto
    let ?acc1 = "AList.update n (ObjectSampler objects receptacles (p2, p3) p4) acc"
    have step: "get_obj_samplers obj_sets rec_sets (a # entries) acc =
        get_obj_samplers obj_sets rec_sets entries ?acc1"
      using False f0 f1 by (simp add: a)
    have keys: "set (map fst ?acc1) = insert n (set (map fst acc))"
      using dom_update [of n _ acc] by simp
    have "set (map fst entries) \<inter> set (map fst ?acc1) \<noteq> {}
         \<or> \<not> distinct (map fst entries)
         \<or> (\<exists>(sampler_name, sampler_type, object_sets, receptacle_sets, others)\<in>set entries.
               sampler_type \<noteq> ''uniform''
               \<or> \<not> set object_sets \<subseteq> fst ` set obj_sets
               \<or> \<not> set receptacle_sets \<subseteq> fst ` set rec_sets)"
      using Cons.prems False unfolding keys by (auto simp: a)
    from Cons.IH [OF this] step show ?thesis by simp
  qed
qed

lemma get_object_target_samplers_rejects:
  assumes "set (map fst entries) \<inter> set (map fst acc) \<noteq> {}
         \<or> \<not> distinct (map fst entries)
         \<or> (\<exists>(sampler_name, sampler_type, sampler_names, receptacle_sets, others)\<in>set entries.
               sampler_type \<noteq> ''uniform''
               \<or> \<not> set sampler_names \<subseteq> fst ` set sampled_objects
               \<or> \<not> set receptacle_sets \<subseteq> fst ` set rec_sets)"
  shows "isl (get_object_target_samplers sampled_objects rec_sets entries acc)"
  using assms
proof (induction entries arbitrary: acc)
  case Nil
  then show ?case by simp
next
  case (Cons a entries)
  obtain n ty p0 p1 p2 p3 p4 where a: "a = (n, ty, p0, p1, p2, p3, p4)"
    by (cases a) auto
  show ?case
  proof (cases "n \<in> set (map fst acc) \<or> ty \<noteq> ''uniform''
      \<or> \<not> set p0 \<subseteq> fst ` set sampled_objects \<or> \<not> set p1 \<subseteq> fst ` set rec_sets")
    case True
    then show ?thesis
      using flatten_sets_raises_iff [of sampled_objects p0]
        flatten_sets_raises_iff [of rec_sets p1]
      by (auto simp: a split: sum.splits)
  next
    case False
    then obtain object_instances receptacles where
      f0: "flatten_sets sampled_objects p0 = Inr object_instances" and
      f1: "flatten_sets rec_sets p1 = Inr receptacles"
      using flatten_sets_raises_iff [of sampled_objects p0]
        flatten_sets_raises_iff [of rec_sets p1]
      by (cases "flatten_sets sampled_objects p0"; cases "flatten_sets rec_sets p1") auto
    let ?acc1 = "AList.update n (ObjectTargetSampler object_instances receptacles (p2, p3) p4) acc"
    have step: "get_object_target_samplers sampled_objects rec_sets (a # entries) acc =
        get_object_target_samplers sampled_objects rec_sets entries ?acc1"
      using False f0 f1 by (simp add: a)
    have keys: "set (map fst ?acc1) = insert n (set (map fst acc))"
      using dom_update [of n _ acc] by simp
    have "set (map fst entries) \<inter> set (map fst ?acc1) \<noteq> {}
         \<or> \<not> distinct (map fst entries)
         \<or> (\<exists>(sampler_name, sampler_type, sampler_names, receptacle_sets, others)\<in>set entries.
               sampler_type \<noteq> ''uniform''
               \<or> \<not> set sampler_names \<subseteq> fst ` set sampled_objects
               \<or> \<not> set receptacle_sets \<subseteq> fst ` set rec_sets)"
      using Cons.prems False unfolding keys by (auto simp: a)
    from Cons.IH [OF this] step show ?thesis by simp
  qed
qed

lemma get_ao_state_samplers_rejects:
  assumes "set (map fst entries) \<inter> set (map fst acc) \<noteq> {}
         \<or> \<not> distinct (map fst entries)
         \<or> (\<exists>(sampler_name, sampler_type, params)\<in>set entries.
               sampler_type \<noteq> ''uniform'' \<and> sampler_type \<noteq> ''composite'')"
  shows "isl (get_ao_state_samplers entries acc)"
  using assms
proof (induction entries arbitrary: acc)
  case Nil
  then show ?case by simp
next
  case (Cons a entries)
  obtain n ty params where a: "a = (n, ty, params)"
    by (cases a) auto
  show ?case
  proof (cases "isl (get_ao_state_samplers (a # entries) acc)")
    case True
    then show ?thesis .
  next
    case False
    then have ok: "n \<notin> set (map fst acc)" "ty = ''uniform'' \<or> ty = ''composite''"
      by (auto simp: a split: if_splits)
    from False ok obtain sampler where
      step: "get_ao_state_samplers (a # entries) acc =
             get_ao_state_samplers entries (AList.update n sampler acc)"
      by (auto simp: a split: if_splits ao_params.splits sum.splits)
    have keys: "set (map fst (AList.update n sampler acc)) = insert n (set (map fst acc))"
      using dom_update [of n sampler acc] by simp
    have "set (map fst entries) \<inter> set (map fst (AList.update n sampler acc)) \<noteq> {}
         \<or> \<not> distinct (map fst entries)
         \<or> (\<exists>(sampler_name, sampler_type, params)\<in>set entries.
               sampler_type \<noteq> ''uniform'' \<and> sampler_type \<noteq> ''composite'')"
      using Cons.prems ok unfolding keys by (auto simp: a)
    from Cons.IH [OF this] step show ?thesis by simp
  qed
qed

lemma collect_scene_subsets_raises_iff:
  "isl (collect_scene_subsets scene_sets names subsets) \<longleftrightarrow>
     \<not> set names \<subseteq> fst ` set scene_sets"
  by (induction names arbitrary: subsets)
     (auto simp: map_of_eq_None_iff split: option.splits dest: map_of_Some_key)

lemma get_scene_sampler_rejects:
  assumes "(sampler_type \<noteq> ''single'' \<and> sampler_type \<noteq> ''subset'')
         \<or> (sampler_type = ''subset'' \<and>
             (\<exists>p\<in>set (take 2 params). \<not> set (param_items p) \<subseteq> fst ` set scene_sets))"
  shows "isl (get_scene_sampler scene_sets (sampler_type, params))"
proof (cases "sampler_type = ''subset''")
  case False
  with assms show ?thesis by (simp add: get_scene_sampler_def)
next
  case True
  with assms obtain p where p: "p \<in> set (take 2 params)"
    "\<not> set (param_items p) \<subseteq> fst ` set scene_sets" by auto
  show ?thesis
  proof (cases params)
    case Nil
    with p show ?thesis by simp
  next
    case (Cons p0 ps)
    show ?thesis
    proof (cases ps)
      case Nil
      with Cons p True show ?thesis
        using collect_scene_subsets_raises_iff [of scene_sets "param_items p0" "{}"]
        by (auto simp: get_scene_sampler_def split: sum.splits)
    next
      case (Cons p1 ps')
      with \<open>params = p0 # ps\<close> p True show ?thesis
        using collect_scene_subsets_raises_iff [of scene_sets "param_items p0" "{}"]
          collect_scene_subsets_raises_iff [of scene_sets "param_items p1" "{}"]
        by (auto simp: get_scene_sampler_def numeral_2_eq_2 split: sum.splits)
    qed
  qed
qed

lemma generator_init_raises_iff:
  "isl (generator_init ext cfg debug_visualization) \<longleftrightarrow>
     isl (get_scene_sampler (get_resource_sets (cfg_scene_sets cfg) []) (cfg_scene_sampler cfg))
     \<or> isl (get_obj_samplers (get_resource_sets (cfg_object_sets cfg) [])
              (get_resource_sets (cfg_receptacle_sets cfg) []) (cfg_obj_samplers cfg) [])
     \<or> isl (get_ao_state_samplers (cfg_ao_state_samplers cfg) [])"
proof -
  let ?scene = "get_scene_sampler (get_resource_sets (cfg_scene_sets cfg) []) (cfg_scene_sampler cfg)"
  let ?obj = "get_obj_samplers (get_resource_sets (cfg_object_sets cfg) [])
                  (get_resource_sets (cfg_receptacle_sets cfg) []) (cfg_obj_samplers cfg) []"
  let ?ao = "get_ao_state_samplers (cfg_ao_state_samplers cfg) []"
  show ?thesis
  proof (cases ?scene)
    case (Inl e)
    then show ?thesis by (simp add: generator_init_def initialize_sim_def Let_def)
  next
    case scene: (Inr s)
    show ?thesis
    proof (cases ?obj)
      case (Inl e)
      with scene show ?thesis by (simp add: generator_init_def initialize_sim_def Let_def)
    next
      case obj: (Inr os)
      show ?thesis
      proof (cases ?ao)
        case (Inl e)
        with scene obj show ?thesis by (simp add: generator_init_def initialize_sim_def Let_def)
      next
        case (Inr aos)
        with scene obj show ?thesis by (simp add: generator_init_def initialize_sim_def Let_def)
      qed
    qed
  qed
qed

lemma obj_sampler_cfg_rejected:
  assumes "\<not> distinct (map fst entries)
      \<or> (\<exists>(sampler_name, sampler_type, object_sets, receptacle_sets, others)\<in>set entries.
            sampler_type \<noteq> ''uniform''
            \<or> \<not> set object_sets \<subseteq> fst ` set object_sets_cfg
            \<or> \<not> set receptacle_sets \<subseteq> fst ` set receptacle_sets_cfg)"
  shows "isl (get_obj_samplers (get_resource_sets object_sets_cfg [])
                (get_resource_sets receptacle_sets_cfg []) entries [])"
proof (rule get_obj_samplers_rejects)
  have "fst ` set (get_resource_sets object_sets_cfg []) = fst ` set object_sets_cfg"
    "fst ` set (get_resource_sets receptacle_sets_cfg []) = fst ` set receptacle_sets_cfg"
    by (simp_all add: get_resource_sets_keys)
  with assms show "set (map fst entries) \<inter> set (map fst []) \<noteq> {}
         \<or> \<not> distinct (map fst entries)
         \<or> (\<exists>(sampler_name, sampler_type, object_sets, receptacle_sets, others)\<in>set entries.
               sampler_type \<noteq> ''uniform''
               \<or> \<not> set object_sets \<subseteq> fst ` set (get_resource_sets object_sets_cfg [])
               \<or> \<not> set receptacle_sets \<subseteq> fst ` set (get_resource_sets receptacle_sets_cfg []))"
    by simp
qed

lemma ao_sampler_cfg_rejected:
  assumes "\<not> distinct (map fst entries)
      \<or> (\<exists>(sampler_name, sampler_type, params)\<in>set entries.
            sampler_type \<noteq> ''uniform'' \<and> sampler_type \<noteq> ''composite'')"
  shows "isl (get_ao_state_samplers entries [])"
proof (rule get_ao_state_samplers_rejects)
  from assms show "set (map fst entries) \<inter> set (map fst []) \<noteq> {}
         \<or> \<not> distinct (map fst entries)
         \<or> (\<exists>(sampler_name, sampler_type, params)\<in>set entries.
               sampler_type \<noteq> ''uniform'' \<and> sampler_type \<noteq> ''composite'')"
    by simp
qed

lemma target_sampler_cfg_rejected:
  assumes "\<not> distinct (map fst entries)
      \<or> (\<exists>(sampler_name, sampler_type, sampler_names, receptacle_sets, others)\<in>set entries.
            sampler_type \<noteq> ''uniform''
            \<or> \<not> set sampler_names \<subseteq> fst ` set sampled_objects
            \<or> \<not> set receptacle_sets \<subseteq> fst ` set rec_sets)"
  shows "isl (get_object_target_samplers sampled_objects rec_sets entries [])"
proof (rule get_object_target_samplers_rejects)
  from assms show "set (map fst entries) \<inter> set (map fst []) \<noteq> {}
         \<or> \<not> distinct (map fst entries)
         \<or> (\<exists>(sampler_name, sampler_type, sampler_names, receptacle_sets, others)\<in>set entries.
               sampler_type \<noteq> ''uniform''
               \<or> \<not> set sampler_names \<subseteq> fst ` set sampled_objects
               \<or> \<not> set receptacle_sets \<subseteq> fst ` set rec_sets)"
    by simp
qed

lemma scene_sampler_cfg_rejected:
  assumes "(fst scene_cfg \<noteq> ''single'' \<and> fst scene_cfg \<noteq> ''subset'')
      \<or> (fst scene_cfg = ''subset'' \<and>
          (\<exists>p\<in>set (take 2 (snd scene_cfg)). \<not> set (param_items p) \<subseteq> fst ` set scene_sets_cfg))"
  shows "isl (get_scene_sampler (get_resource_sets scene_sets_cfg []) scene_cfg)"
proof -
  have k: "fst ` set (get_resource_sets scene_sets_cfg []) = fst ` set scene_sets_cfg"
    by (simp add: get_resource_sets_keys)
  have "isl (get_scene_sampler (get_resource_sets scene_sets_cfg [])
               (fst scene_cfg, snd scene_cfg))"
    by (rule get_scene_sampler_rejects) (use assms in \<open>simp only: k\<close>)
  then show ?thesis by simp
qed

text \<open>
  Claim C5, as amended. For the object samplers (a name used twice, a type other than
  "uniform", an object set or receptacle set that is not defined), the
  articulated-object state samplers (a name used twice, a type other than "uniform" and
  "composite") and the scene sampler (a type other than "single" and "subset", a subset
  sampler that names an undefined scene set), the constructor raises. The target samplers
  are not part of construction: whether the constructor raises does not depend on their
  configuration. Their errors (a name used twice, an unknown type, an undefined
  receptacle set or object sampler name) make \<^verbatim>\<open>_get_object_target_samplers\<close> raise,
  which \<^verbatim>\<open>generate_single_episode\<close> calls once an attempt has passed the settle gate.
\<close>

theorem configuration_errors_of_three_categories_abort_construction:
  "((\<not> distinct (map fst (cfg_obj_samplers cfg))
      \<or> (\<exists>(sampler_name, sampler_type, object_sets, receptacle_sets, others)
             \<in>set (cfg_obj_samplers cfg).
            sampler_type \<noteq> ''uniform''
            \<or> \<not> set object_sets \<subseteq> fst ` set (cfg_object_sets cfg)
            \<or> \<not> set receptacle_sets \<subseteq> fst ` set (cfg_receptacle_sets cfg)))
     \<longrightarrow> isl (generator_init ext cfg debug_visualization))
   \<and> ((\<not> distinct (map fst (cfg_ao_state_samplers cfg))
      \<or> (\<exists>(sampler_name, sampler_type, params)\<in>set (cfg_ao_state_samplers cfg).
            sampler_type \<noteq> ''uniform'' \<and> sampler_type \<noteq> ''composite''))
     \<longrightarrow> isl (generator_init ext cfg debug_visualization))
   \<and> (((fst (cfg_scene_sampler cfg) \<noteq> ''single'' \<and> fst (cfg_scene_sampler cfg) \<noteq> ''subset'')
      \<or> (fst (cfg_scene_sampler cfg) = ''subset'' \<and>
          (\<exists>p\<in>set (take 2 (snd (cfg_scene_sampler cfg))).
             \<not> set (param_items p) \<subseteq> fst ` set (cfg_scene_sets cfg))))
     \<longrightarrow> isl (generator_init ext cfg debug_visualization))
   \<and> isl (generator_init ext (cfg \<lparr> cfg_obj_target_samplers := target_cfg \<rparr>)
            debug_visualization) =
       isl (generator_init ext cfg debug_visualization)
   \<and> ((\<not> distinct (map fst target_cfg)
        \<or> (\<exists>(sampler_name, sampler_type, sampler_names, receptacle_sets, others)\<in>set target_cfg.
              sampler_type \<noteq> ''uniform''
              \<or> \<not> set sampler_names \<subseteq> fst ` set sampled_objects
              \<or> \<not> set receptacle_sets \<subseteq> fst ` set rec_sets))
       \<longrightarrow> isl (get_object_target_samplers sampled_objects rec_sets target_cfg []))
   \<and> (sample_episode_state ext g0 = Inr (ep_scene_handle, states, g3)
        \<and> settle_sim ext g3 5 True = Some (Inr (True, g4))
        \<and> get_object_target_samplers (self_sampled_objects g4) (self_receptacle_sets g4)
             (cfg_obj_target_samplers (self_cfg g4)) [] = Inl e
       \<longrightarrow> generate_single_episode ext g0 = Some (Inl e))"
proof (intro conjI impI)
  assume "\<not> distinct (map fst (cfg_obj_samplers cfg))
      \<or> (\<exists>(sampler_name, sampler_type, object_sets, receptacle_sets, others)
             \<in>set (cfg_obj_samplers cfg).
            sampler_type \<noteq> ''uniform''
            \<or> \<not> set object_sets \<subseteq> fst ` set (cfg_object_sets cfg)
            \<or> \<not> set receptacle_sets \<subseteq> fst ` set (cfg_receptacle_sets cfg))"
  from obj_sampler_cfg_rejected [OF this]
  show "isl (generator_init ext cfg debug_visualization)"
    by (simp only: generator_init_raises_iff simp_thms)
next
  assume "\<not> distinct (map fst (cfg_ao_state_samplers cfg))
      \<or> (\<exists>(sampler_name, sampler_type, params)\<in>set (cfg_ao_state_samplers cfg).
            sampler_type \<noteq> ''uniform'' \<and> sampler_type \<noteq> ''composite'')"
  from ao_sampler_cfg_rejected [OF this]
  show "isl (generator_init ext cfg debug_visualization)"
    by (simp only: generator_init_raises_iff simp_thms)
next
  assume "(fst (cfg_scene_sampler cfg) \<noteq> ''single'' \<and> fst (cfg_scene_sampler cfg) \<noteq> ''subset'')
      \<or> (fst (cfg_scene_sampler cfg) = ''subset'' \<and>
          (\<exists>p\<in>set (take 2 (snd (cfg_scene_sampler cfg))).
             \<not> set (param_items p) \<subseteq> fst ` set (cfg_scene_sets cfg)))"
  from scene_sampler_cfg_rejected [OF this]
  show "isl (generator_init ext cfg debug_visualization)"
    by (simp only: generator_init_raises_iff simp_thms)
next
  show "isl (generator_init ext (cfg \<lparr> cfg_obj_target_samplers := target_cfg \<rparr>)
            debug_visualization) =
       isl (generator_init ext cfg debug_visualization)"
    by (simp add: generator_init_raises_iff)
next
  assume "\<not> distinct (map fst target_cfg)
        \<or> (\<exists>(sampler_name, sampler_type, sampler_names, receptacle_sets, others)\<in>set target_cfg.
              sampler_type \<noteq> ''uniform''
              \<or> \<not> set sampler_names \<subseteq> fst ` set sampled_objects
              \<or> \<not> set receptacle_sets \<subseteq> fst ` set rec_sets)"
  then show "isl (get_object_target_samplers sampled_objects rec_sets target_cfg [])"
    by (rule target_sampler_cfg_rejected)
next
  assume "sample_episode_state ext g0 = Inr (ep_scene_handle, states, g3)
        \<and> settle_sim ext g3 5 True = Some (Inr (True, g4))
        \<and> get_object_target_samplers (self_sampled_objects g4) (self_receptacle_sets g4)
             (cfg_obj_target_samplers (self_cfg g4)) [] = Inl e"
  then show "generate_single_episode ext g0 = Some (Inl e)"
    by (simp add: generate_single_episode_def assemble_episode_def)
qed

lemma demo_bad_target:
  "\<exists>g h st g3 g4. generator_init (demo_ext 0 True) bad_target_cfg False = Inr g
     \<and> sample_episode_state (demo_ext 0 True) g = Inr (h, st, g3)
     \<and> settle_sim (demo_ext 0 True) g3 5 True = Some (Inr (True, g4))
     \<and> get_object_target_samplers (self_sampled_objects g4) (self_receptacle_sets g4)
          (cfg_obj_target_samplers (self_cfg g4)) [] = Inl NotImplementedError"
  by (simp add: bad_target_cfg_def demo_defs
        demo_ext_sel demo_settle_150 demo_vec_length_axis del: demo_vec_length.simps)

theorem configuration_errors_of_three_categories_abort_construction_witness:
  "isl (generator_init (demo_ext 0 True) duplicate_obj_sampler_cfg False)
   \<and> isl (generator_init (demo_ext 0 True) unknown_ao_type_cfg False)
   \<and> isl (generator_init (demo_ext 0 True) undefined_scene_set_cfg False)
   \<and> isl (generator_init (demo_ext 0 True) bad_target_cfg False) =
       isl (generator_init (demo_ext 0 True) get_config_defaults False)
   \<and> isl (get_object_target_samplers [] [] (cfg_obj_target_samplers bad_target_cfg) [])
   \<and> (case generator_init (demo_ext 0 True) bad_target_cfg False of
        Inl e \<Rightarrow> False
      | Inr g \<Rightarrow> generate_single_episode (demo_ext 0 True) g = Some (Inl NotImplementedError))"
proof -
  from demo_bad_target obtain g h st g3 g4 where
    init: "generator_init (demo_ext 0 True) bad_target_cfg False = Inr g" and
    s: "sample_episode_state (demo_ext 0 True) g = Inr (h, st, g3)" and
    t: "settle_sim (demo_ext 0 True) g3 5 True = Some (Inr (True, g4))" and
    e: "get_object_target_samplers (self_sampled_objects g4) (self_receptacle_sets g4)
          (cfg_obj_target_samplers (self_cfg g4)) [] = Inl NotImplementedError"
    by auto
  have dup: "\<not> distinct (map fst (cfg_obj_samplers duplicate_obj_sampler_cfg))"
    by (simp add: duplicate_obj_sampler_cfg_def)
  have ao: "\<exists>(sampler_name, sampler_type, params)\<in>set (cfg_ao_state_samplers unknown_ao_type_cfg).
              sampler_type \<noteq> ''uniform'' \<and> sampler_type \<noteq> ''composite''"
    by (simp add: unknown_ao_type_cfg_def)
  have scene: "fst (cfg_scene_sampler undefined_scene_set_cfg) = ''subset'' \<and>
          (\<exists>p\<in>set (take 2 (snd (cfg_scene_sampler undefined_scene_set_cfg))).
             \<not> set (param_items p) \<subseteq> fst ` set (cfg_scene_sets undefined_scene_set_cfg))"
    by (simp add: undefined_scene_set_cfg_def get_config_defaults_def numeral_2_eq_2)
  have target: "\<exists>(sampler_name, sampler_type, sampler_names, receptacle_sets, others)
                  \<in>set (cfg_obj_target_samplers bad_target_cfg).
              sampler_type \<noteq> ''uniform''
              \<or> \<not> set sampler_names \<subseteq> fst ` set ([] :: (string, rigid_object list) dict)
              \<or> \<not> set receptacle_sets \<subseteq> fst ` set ([] :: (string, string list) dict)"
    by (simp add: bad_target_cfg_def)
  have c1: "isl (generator_init (demo_ext 0 True) duplicate_obj_sampler_cfg False)"
    using configuration_errors_of_three_categories_abort_construction
      [of duplicate_obj_sampler_cfg "demo_ext 0 True" False, THEN conjunct1] dup by blast
  have c2: "isl (generator_init (demo_ext 0 True) unknown_ao_type_cfg False)"
    using configuration_errors_of_three_categories_abort_construction
      [of unknown_ao_type_cfg "demo_ext 0 True" False, THEN conjunct2, THEN conjunct1] ao
    by blast
  have c3: "isl (generator_init (demo_ext 0 True) undefined_scene_set_cfg False)"
    using configuration_errors_of_three_categories_abort_construction
      [of undefined_scene_set_cfg "demo_ext 0 True" False,
       THEN conjunct2, THEN conjunct2, THEN conjunct1] scene
    by blast
  note rest = configuration_errors_of_three_categories_abort_construction
      [of get_config_defaults "demo_ext 0 True" False
          "[(''any_targets'', ''gaussian'', [''any''], [''table''], 3, 3, ''up'')]"
          "[]" "[]" g h st g3 g4 NotImplementedError,
       THEN conjunct2, THEN conjunct2, THEN conjunct2]
  have c4: "isl (generator_init (demo_ext 0 True) bad_target_cfg False) =
       isl (generator_init (demo_ext 0 True) get_config_defaults False)"
    using rest [THEN conjunct1] by (simp add: bad_target_cfg_def)
  have c5: "isl (get_object_target_samplers [] [] (cfg_obj_target_samplers bad_target_cfg) [])"
    using rest [THEN conjunct2, THEN conjunct1] target by (simp add: bad_target_cfg_def)
  have c6: "generate_single_episode (demo_ext 0 True) g = Some (Inl NotImplementedError)"
    using rest [THEN conjunct2, THEN conjunct2] s t e by blast
  from c1 c2 c3 c4 c5 c6 init show ?thesis by simp
qed

text \<open>
  The claim as stated fails for the target samplers: with a target sampler of the unknown
  type "gaussian" in the configuration, the constructor returns a generator.
\<close>

theorem target_sampler_error_counterexample:
  "map (fst \<circ> snd) (cfg_obj_target_samplers bad_target_cfg) = [''gaussian'']
   \<and> \<not> isl (generator_init (demo_ext 0 True) bad_target_cfg False)"
  by (simp add: bad_target_cfg_def demo_defs demo_ext_sel)

end
